theory Spec2Isabelle
  imports Complex_Main
begin

section \<open>SparseInst (sparseinst\_point.py): tensors, errors and the unfold primitive\<close>

text \<open>
  The development follows \<^verbatim>\<open>src/sparseinst/sparseinst_point.py\<close>.  Floating-point
  numbers are idealised as real numbers throughout; every Python exception is a value
  \<open>Inl e\<close> of the result type \<open>error + 'a\<close>.  An assertion error carries the
  \<^verbatim>\<open>assert\<close> statement that failed: lines 21 and 22 of \<open>unfold_wo_center\<close>, lines 47
  and 48 of \<open>get_images_color_similarity\<close>, lines 299 and 300 of
  \<open>add_bitmasks_from_boxes\<close>, and the length check of Detectron2 when a field is set.
\<close>

datatype assertion =
    Assert_x_dim_4
  | Assert_kernel_size_odd
  | Assert_images_dim_4
  | Assert_images_batch_1
  | Assert_height_stride
  | Assert_width_stride
  | Assert_field_length

datatype error =
    AssertionError assertion
  | RuntimeError string
  | IndexError string
  | AttributeError string
  | ValueError string

definition bind_err :: "error + 'a \<Rightarrow> ('a \<Rightarrow> error + 'b) \<Rightarrow> error + 'b" where
  "bind_err r f = (case r of Inl e \<Rightarrow> Inl e | Inr v \<Rightarrow> f v)"

subsection \<open>Tensors of run-time rank\<close>

text \<open>
  Where the code inspects the rank at run time (\<^verbatim>\<open>x.dim()\<close>, \<^verbatim>\<open>x.size(i)\<close>) a tensor is
  its shape together with the entry at every index.  Only entries at indices inside the
  shape are meaningful.
\<close>

datatype tensor = Tensor (shape: "nat list") (elems: "nat list \<Rightarrow> real")

definition dim :: "tensor \<Rightarrow> nat" where
  "dim x = length (shape x)"

definition numel :: "tensor \<Rightarrow> nat" where
  "numel x = prod_list (shape x)"

definition valid_index :: "nat list \<Rightarrow> nat list \<Rightarrow> bool" where
  "valid_index sh idx = (length idx = length sh \<and> list_all2 (\<lambda>i n. i < n) idx sh)"

text \<open>\<^verbatim>\<open>x.size(i)\<close> for a non-negative \<open>i\<close>.\<close>

definition size_at :: "tensor \<Rightarrow> nat \<Rightarrow> error + nat" where
  "size_at x i =
     (if i < dim x then Inr (shape x ! i)
      else Inl (IndexError ''Dimension out of range''))"

text \<open>Row-major offsets, as used by \<^verbatim>\<open>reshape\<close> on contiguous data.\<close>

fun ravel :: "nat list \<Rightarrow> nat list \<Rightarrow> nat" where
  "ravel (n # ns) (i # is) = i * prod_list ns + ravel ns is"
| "ravel _ _ = 0"

fun unravel :: "nat list \<Rightarrow> nat \<Rightarrow> nat list" where
  "unravel [] off = []"
| "unravel (n # ns) off = (off div prod_list ns) # unravel ns (off mod prod_list ns)"

text \<open>
  \<^verbatim>\<open>x.reshape(*spec)\<close> where at most one entry of \<open>spec\<close> is \<open>-1\<close> (inferred).  Torch
  refuses an inferred extent when the known extents multiply to zero or do not divide
  the number of elements.
\<close>

definition reshape :: "tensor \<Rightarrow> int list \<Rightarrow> error + tensor" where
  "reshape x spec =
     (let known = prod_list (map nat (filter (\<lambda>i. i \<noteq> - 1) spec)) in
      if (\<exists>i \<in> set spec. i < - 1) \<or> 1 < length (filter (\<lambda>i. i = - 1) spec)
      then Inl (RuntimeError ''invalid shape'')
      else if - 1 \<in> set spec
      then (if known = 0 \<or> numel x mod known \<noteq> 0
            then Inl (RuntimeError ''shape is invalid for input size'')
            else
              (let sh = map (\<lambda>i. if i = - 1 then numel x div known else nat i) spec
               in Inr (Tensor sh (\<lambda>idx. elems x (unravel (shape x) (ravel sh idx))))))
      else if known \<noteq> numel x
      then Inl (RuntimeError ''shape is invalid for input size'')
      else
        (let sh = map nat spec
         in Inr (Tensor sh (\<lambda>idx. elems x (unravel (shape x) (ravel sh idx))))))"

text \<open>
  The bounds of a Python slice \<^verbatim>\<open>start:stop\<close> (step 1) on a sequence of length \<open>n\<close>:
  a negative bound counts from the end, and both bounds are clamped to \<open>[0, n]\<close>.  The
  slice selects the positions \<open>lo \<le> i < hi\<close>.
\<close>

definition slice_bound :: "nat \<Rightarrow> int \<Rightarrow> nat" where
  "slice_bound n i = (if i < 0 then nat (max 0 (int n + i)) else nat (min i (int n)))"

definition slice_indices :: "nat \<Rightarrow> int option \<Rightarrow> int option \<Rightarrow> nat \<times> nat" where
  "slice_indices n start stop =
     ((case start of None \<Rightarrow> 0 | Some i \<Rightarrow> slice_bound n i),
      (case stop of None \<Rightarrow> n | Some i \<Rightarrow> slice_bound n i))"

text \<open>\<^verbatim>\<open>x[..., start:stop, ...]\<close> along the axis \<open>a\<close>.\<close>

definition slice_dim :: "tensor \<Rightarrow> nat \<Rightarrow> int option \<Rightarrow> int option \<Rightarrow> error + tensor" where
  "slice_dim x a start stop =
     (if dim x \<le> a then Inl (IndexError ''too many indices for tensor'')
      else
        (let (lo, hi) = slice_indices (shape x ! a) start stop
         in Inr (Tensor ((shape x)[a := hi - lo])
                        (\<lambda>idx. elems x (idx[a := idx ! a + lo])))))"

text \<open>\<^verbatim>\<open>torch.cat((a, b), dim=axis)\<close>: the shapes must agree off the axis.\<close>

definition cat2 :: "tensor \<Rightarrow> tensor \<Rightarrow> nat \<Rightarrow> error + tensor" where
  "cat2 a b axis =
     (if dim a \<noteq> dim b \<or> dim a \<le> axis
         \<or> (shape a)[axis := 0] \<noteq> (shape b)[axis := 0]
      then Inl (RuntimeError ''Sizes of tensors must match except in the cat dimension'')
      else
        (let na = shape a ! axis
         in Inr (Tensor ((shape a)[axis := na + shape b ! axis])
                        (\<lambda>idx. if idx ! axis < na then elems a idx
                                else elems b (idx[axis := idx ! axis - na])))))"

text \<open>
  \<^verbatim>\<open>F.unfold(x, kernel_size=k, padding=p, dilation=d)\<close> (stride 1) on a 4D input, the
  only rank at which \<open>unfold_wo_center\<close> calls it.  The library checks that kernel size
  and dilation are positive, that the padding is not negative, that only the batch
  extent may be zero and that the output extents are at least 1.  Row \<open>c * k * k + ki *
  k + kj\<close> of the result holds, at block \<open>oy * ow + ox\<close>, the zero-padded input at
  \<open>(oy - p + ki * d, ox - p + kj * d)\<close> of channel \<open>c\<close>.
\<close>

definition F_unfold :: "tensor \<Rightarrow> int \<Rightarrow> int \<Rightarrow> int \<Rightarrow> error + tensor" where
  "F_unfold x k p d =
     (if k \<le> 0 then Inl (RuntimeError ''kernel size should be greater than zero'')
      else if d \<le> 0 then Inl (RuntimeError ''dilation should be greater than zero'')
      else if p < 0 then Inl (RuntimeError ''padding should be non-negative'')
      else if dim x \<noteq> 4 \<or> shape x ! 1 = 0 \<or> shape x ! 2 = 0 \<or> shape x ! 3 = 0
      then Inl (RuntimeError ''Expected 3D or 4D tensor with non-zero dimensions'')
      else
        (let n = shape x ! 0; c = shape x ! 1; h = shape x ! 2; w = shape x ! 3;
             oh = int h + 2 * p - (d * (k - 1) + 1) + 1;
             ow = int w + 2 * p - (d * (k - 1) + 1) + 1
         in if oh < 1 \<or> ow < 1
            then Inl (RuntimeError ''calculated shape of the array of sliding blocks is too small'')
            else Inr (Tensor [n, c * nat (k * k), nat oh * nat ow]
              (\<lambda>idx.
                 let b = idx ! 0; ck = idx ! 1; l = idx ! 2;
                     ch = ck div nat (k * k); r = ck mod nat (k * k);
                     ki = int (r div nat k); kj = int (r mod nat k);
                     iy = int (l div nat ow) - p + ki * d;
                     ix = int (l mod nat ow) - p + kj * d
                 in if 0 \<le> iy \<and> iy < int h \<and> 0 \<le> ix \<and> ix < int w
                    then elems x [b, ch, nat iy, nat ix] else 0))))"

subsection \<open>\<open>unfold_wo_center\<close> (lines 20--43)\<close>

definition unfold_wo_center :: "tensor \<Rightarrow> int \<Rightarrow> int \<Rightarrow> error + tensor" where
  "unfold_wo_center x kernel_size dilation =
     (if dim x \<noteq> 4 then Inl (AssertionError Assert_x_dim_4)
      else if kernel_size mod 2 \<noteq> 1 then Inl (AssertionError Assert_kernel_size_odd)
      else
        (let padding = (kernel_size + (dilation - 1) * (kernel_size - 1)) div 2
         in bind_err (F_unfold x kernel_size padding dilation) (\<lambda>unfolded_x.
            bind_err (reshape unfolded_x
                        [int (shape x ! 0), int (shape x ! 1), - 1,
                         int (shape x ! 2), int (shape x ! 3)]) (\<lambda>unfolded_x.
            (let size = kernel_size ^ 2
             in bind_err (slice_dim unfolded_x 2 None (Some (size div 2))) (\<lambda>left.
                bind_err (slice_dim unfolded_x 2 (Some (size div 2 + 1)) None) (\<lambda>right.
                cat2 left right 2)))))))"

subsection \<open>Pointwise operations, broadcasting and indexing\<close>

definition map_tensor :: "(real \<Rightarrow> real) \<Rightarrow> tensor \<Rightarrow> tensor" where
  "map_tensor f x = Tensor (shape x) (\<lambda>idx. f (elems x idx))"

text \<open>
  Broadcasting of two shapes: they are aligned at the right, the shorter one is filled
  with extents 1, and two extents are compatible when they are equal or one of them is 1.
\<close>

definition broadcast_shapes :: "nat list \<Rightarrow> nat list \<Rightarrow> nat list option" where
  "broadcast_shapes a b =
     (let n = max (length a) (length b);
          a' = replicate (n - length a) 1 @ a;
          b' = replicate (n - length b) 1 @ b
      in if list_all2 (\<lambda>p q. p = q \<or> p = 1 \<or> q = 1) a' b'
         then Some (map2 (\<lambda>p q. if p = 1 then q else p) a' b')
         else None)"

text \<open>The index of an operand of shape \<open>sh\<close> that is read for the result index \<open>idx\<close>.\<close>

definition bsrc :: "nat list \<Rightarrow> nat list \<Rightarrow> nat list" where
  "bsrc sh idx = map2 (\<lambda>n i. if n = 1 then 0 else i) sh (drop (length idx - length sh) idx)"

definition binop :: "(real \<Rightarrow> real \<Rightarrow> real) \<Rightarrow> tensor \<Rightarrow> tensor \<Rightarrow> error + tensor" where
  "binop f a b =
     (case broadcast_shapes (shape a) (shape b) of
        None \<Rightarrow> Inl (RuntimeError ''The size of tensor a must match the size of tensor b'')
      | Some sh \<Rightarrow>
          Inr (Tensor sh (\<lambda>idx. f (elems a (bsrc (shape a) idx)) (elems b (bsrc (shape b) idx)))))"

text \<open>\<^verbatim>\<open>x[:, ..., None]\<close>: a new axis of extent 1 at position \<open>a\<close>.\<close>

definition unsqueeze :: "tensor \<Rightarrow> nat \<Rightarrow> error + tensor" where
  "unsqueeze x a =
     (if dim x < a then Inl (IndexError ''too many indices for tensor'')
      else Inr (Tensor (take a (shape x) @ [1] @ drop a (shape x))
                       (\<lambda>idx. elems x (take a idx @ drop (Suc a) idx))))"

text \<open>\<^verbatim>\<open>x[:, ..., i]\<close>: the entry \<open>i\<close> of axis \<open>a\<close>, which disappears.\<close>

definition select :: "tensor \<Rightarrow> nat \<Rightarrow> nat \<Rightarrow> error + tensor" where
  "select x a i =
     (if dim x \<le> a then Inl (IndexError ''too many indices for tensor'')
      else if shape x ! a \<le> i then Inl (IndexError ''index is out of bounds'')
      else Inr (Tensor (take a (shape x) @ drop (Suc a) (shape x))
                       (\<lambda>idx. elems x (take a idx @ [i] @ drop a idx))))"

text \<open>\<^verbatim>\<open>torch.norm(x, dim=a)\<close>: the Euclidean norm along axis \<open>a\<close>.\<close>

definition norm_dim :: "tensor \<Rightarrow> nat \<Rightarrow> error + tensor" where
  "norm_dim x a =
     (if dim x \<le> a then Inl (IndexError ''Dimension out of range'')
      else Inr (Tensor (take a (shape x) @ drop (Suc a) (shape x))
                 (\<lambda>idx. sqrt (\<Sum>c\<leftarrow>[0..<shape x ! a].
                                  (elems x (take a idx @ [c] @ drop a idx))\<^sup>2))))"

subsection \<open>\<open>get_images_color_similarity\<close> (lines 46--63)\<close>

text \<open>
  \<^verbatim>\<open>torch.exp\<close> on a single-precision tensor.  A result of at most \<open>1 / 2 ^ 150\<close>, half of the
  least positive single-precision number, is rounded to 0 (underflow); the rounding of
  greater results is not modelled.
\<close>

definition exp_f32 :: "real \<Rightarrow> real" where
  "exp_f32 v = (if exp v \<le> 1 / 2 ^ 150 then 0 else exp v)"

text \<open>Lines 50--55: the colour distance \<open>norm(center - neighbour)\<close> along the channels.\<close>

definition color_distance_of :: "tensor \<Rightarrow> int \<Rightarrow> int \<Rightarrow> error + tensor" where
  "color_distance_of images kernel_size dilation =
     bind_err (unfold_wo_center images kernel_size dilation) (\<lambda>unfolded_images.
     bind_err (unsqueeze images 2) (\<lambda>center.
     bind_err (binop (-) center unfolded_images) (\<lambda>diff.
     norm_dim diff 1)))"

text \<open>Line 55: the similarity \<open>exp(-distance * 0.5)\<close>.\<close>

definition similarity_of :: "tensor \<Rightarrow> int \<Rightarrow> int \<Rightarrow> error + tensor" where
  "similarity_of images kernel_size dilation =
     bind_err (color_distance_of images kernel_size dilation) (\<lambda>nrm.
     Inr (map_tensor exp_f32 (map_tensor (\<lambda>v. - v * 0.5) nrm)))"

text \<open>Lines 57--60: the validity weight of every neighbour.\<close>

definition unfolded_weights_of :: "tensor \<Rightarrow> int \<Rightarrow> int \<Rightarrow> error + tensor" where
  "unfolded_weights_of image_masks kernel_size dilation =
     bind_err (unsqueeze image_masks 0) (\<lambda>m1.
     bind_err (unsqueeze m1 0) (\<lambda>m2.
     bind_err (unfold_wo_center m2 kernel_size dilation) (\<lambda>u.
     select u 1 0)))"

definition get_images_color_similarity ::
    "tensor \<Rightarrow> tensor \<Rightarrow> int \<Rightarrow> int \<Rightarrow> error + tensor" where
  "get_images_color_similarity images image_masks kernel_size dilation =
     (if dim images \<noteq> 4 then Inl (AssertionError Assert_images_dim_4)
      else if shape images ! 0 \<noteq> 1 then Inl (AssertionError Assert_images_batch_1)
      else
        bind_err (similarity_of images kernel_size dilation) (\<lambda>similarity.
        bind_err (unfolded_weights_of image_masks kernel_size dilation) (\<lambda>unfolded_weights.
        binop (*) similarity unfolded_weights)))"

section \<open>Detectron2 \<open>Instances\<close>, boxes and targets\<close>

text \<open>
  Tensors whose rank is fixed by their use are nested lists: a mask of shape \<open>(h, w)\<close> is
  a list of \<open>h\<close> rows of \<open>w\<close> entries, a stack of masks a list of masks.  A box is a row
  \<open>(x1, y1, x2, y2)\<close> of a \<open>Boxes\<close> tensor.  An \<open>Instances\<close> object has an image size
  and dynamically set fields; a field that was never set is \<open>None\<close>, and reading it
  raises \<open>AttributeError\<close>.
\<close>

type_synonym box = "real \<times> real \<times> real \<times> real"

record instances =
  image_size :: "nat \<times> nat"
  gt_boxes :: "box list option"
  gt_classes :: "int list option"
  image_color_similarity :: "tensor option"
  pred_masks :: "bool list list list option"
  scores :: "real list option"
  pred_classes :: "nat list option"

text \<open>\<^verbatim>\<open>Instances(image_size)\<close>: no field is set.\<close>

definition Instances :: "nat \<times> nat \<Rightarrow> instances" where
  "Instances sz =
     \<lparr>image_size = sz, gt_boxes = None, gt_classes = None, image_color_similarity = None,
      pred_masks = None, scores = None, pred_classes = None\<rparr>"

definition get_field :: "string \<Rightarrow> 'a option \<Rightarrow> error + 'a" where
  "get_field name v = (case v of None \<Rightarrow> Inl (AttributeError name) | Some a \<Rightarrow> Inr a)"

text \<open>
  \<^verbatim>\<open>len(instances)\<close> is the length of a field; ground-truth instances carry their boxes
  and classes, which have the same length.
\<close>

definition len_instances :: "instances \<Rightarrow> error + nat" where
  "len_instances inst =
     (case gt_boxes inst of
        Some bs \<Rightarrow> Inr (length bs)
      | None \<Rightarrow>
          (case gt_classes inst of
             Some cs \<Rightarrow> Inr (length cs)
           | None \<Rightarrow> Inl (RuntimeError ''Empty Instances does not support __len__!'')))"

text \<open>The per-image target dictionary built by \<open>prepare_targets\<close>.\<close>

record target =
  color_sim :: tensor
  labels :: "int list"
  boxes :: "box list"
  masks :: "bool list list list"

subsection \<open>Pseudo-masks from boxes and \<open>prepare_targets\<close> (lines 160--193)\<close>

text \<open>Python's \<^verbatim>\<open>int(x)\<close> on a float truncates towards zero.\<close>

definition py_int :: "real \<Rightarrow> int" where
  "py_int x = (if 0 \<le> x then \<lfloor>x\<rfloor> else \<lceil>x\<rceil>)"

text \<open>\<^verbatim>\<open>torch.zeros((h, w))\<close>.\<close>

definition zeros :: "nat \<Rightarrow> nat \<Rightarrow> real list list" where
  "zeros h w = replicate h (replicate w 0)"

text \<open>\<^verbatim>\<open>m[r0:r1, c0:c1] = v\<close>: assignment to a rectangle given by two Python slices.\<close>

definition assign_slice ::
    "real list list \<Rightarrow> int \<Rightarrow> int \<Rightarrow> int \<Rightarrow> int \<Rightarrow> real \<Rightarrow> real list list" where
  "assign_slice m r0 r1 c0 c1 v =
     (let (rlo, rhi) = slice_indices (length m) (Some r0) (Some r1)
      in map (\<lambda>(r, row).
                let (clo, chi) = slice_indices (length row) (Some c0) (Some c1)
                in map (\<lambda>(c, old). if rlo \<le> r \<and> r < rhi \<and> clo \<le> c \<and> c < chi then v else old)
                       (enumerate 0 row))
             (enumerate 0 m))"

text \<open>Lines 184--185: the pseudo-mask of one box.\<close>

definition box_bitmask :: "nat \<Rightarrow> nat \<Rightarrow> box \<Rightarrow> real list list" where
  "box_bitmask h w per_box =
     (case per_box of (x1, y1, x2, y2) \<Rightarrow>
        assign_slice (zeros h w) (py_int y1) (py_int (y2 + 1)) (py_int x1) (py_int (x2 + 1)) 1)"

text \<open>\<^verbatim>\<open>torch.stack(xs, dim=0)\<close> refuses an empty list.\<close>

definition torch_stack :: "'a list \<Rightarrow> error + 'a list" where
  "torch_stack xs =
     (if xs = [] then Inl (RuntimeError ''stack expects a non-empty TensorList'')
      else Inr xs)"

text \<open>\<^verbatim>\<open>BitMasks(t)\<close> stores the stack as a Boolean tensor.\<close>

definition BitMasks :: "real list list list \<Rightarrow> bool list list list" where
  "BitMasks t = map (map (map (\<lambda>v. v \<noteq> 0))) t"

text \<open>The body of the loop of \<open>prepare_targets\<close> for one image.\<close>

definition prepare_target :: "instances \<Rightarrow> error + target" where
  "prepare_target targets_per_image =
     bind_err (get_field ''gt_classes'' (gt_classes targets_per_image)) (\<lambda>gt_classes'.
     bind_err (get_field ''image_color_similarity''
                 (image_color_similarity targets_per_image)) (\<lambda>gt_color_similarity.
     (case image_size targets_per_image of (h, w) \<Rightarrow>
     bind_err (get_field ''gt_boxes'' (gt_boxes targets_per_image)) (\<lambda>gt_box.
     (let per_im_bitmasks_full = map (box_bitmask h w) gt_box
      in bind_err (torch_stack per_im_bitmasks_full) (\<lambda>gt_masks.
         Inr \<lparr>color_sim = gt_color_similarity, labels = gt_classes', boxes = gt_box,
              masks = BitMasks gt_masks\<rparr>))))))"

fun prepare_targets_loop :: "instances list \<Rightarrow> target list \<Rightarrow> error + target list" where
  "prepare_targets_loop [] new_targets = Inr new_targets"
| "prepare_targets_loop (targets_per_image # rest) new_targets =
     bind_err (prepare_target targets_per_image) (\<lambda>target.
     prepare_targets_loop rest (new_targets @ [target]))"

definition prepare_targets :: "instances list \<Rightarrow> error + target list" where
  "prepare_targets targets = prepare_targets_loop targets []"

subsection \<open>\<open>add_bitmasks_from_boxes\<close> (lines 295--320)\<close>

text \<open>
  \<^verbatim>\<open>F.avg_pool2d(x, kernel_size=s, stride=s, padding=0)\<close> on a batch of images: the mean
  over disjoint \<open>s \<times> s\<close> blocks.  The library refuses an output extent below 1.
\<close>

definition avg_pool2d :: "tensor \<Rightarrow> nat \<Rightarrow> error + tensor" where
  "avg_pool2d x s =
     (if dim x \<noteq> 4 then Inl (RuntimeError ''non-empty 3D or 4D input tensor expected'')
      else if shape x ! 1 = 0 \<or> shape x ! 2 < s \<or> shape x ! 3 < s
      then Inl (RuntimeError ''Output size is too small'')
      else Inr (Tensor [shape x ! 0, shape x ! 1,
                        (shape x ! 2 - s) div s + 1, (shape x ! 3 - s) div s + 1]
                 (\<lambda>idx. (\<Sum>i\<leftarrow>[0..<s]. \<Sum>j\<leftarrow>[0..<s].
                            elems x [idx ! 0, idx ! 1, idx ! 2 * s + i, idx ! 3 * s + j])
                         / real (s * s))))"

text \<open>The number of positions of \<^verbatim>\<open>range(start, n, stride)\<close>.\<close>

definition range_len :: "nat \<Rightarrow> nat \<Rightarrow> nat \<Rightarrow> nat" where
  "range_len start n stride = (if n \<le> start then 0 else (n - start + stride - 1) div stride)"

text \<open>\<^verbatim>\<open>x[:, start::stride, start::stride]\<close>.\<close>

definition strided :: "tensor \<Rightarrow> nat \<Rightarrow> nat \<Rightarrow> error + tensor" where
  "strided x start stride =
     (if dim x < 3 then Inl (IndexError ''too many indices for tensor'')
      else Inr (Tensor ((shape x)[1 := range_len start (shape x ! 1) stride,
                                  2 := range_len start (shape x ! 2) stride])
                 (\<lambda>idx. elems x (idx[1 := start + stride * (idx ! 1),
                                      2 := start + stride * (idx ! 2)]))))"

text \<open>\<^verbatim>\<open>.byte()\<close> on a non-negative pixel value: truncation to an unsigned 8-bit integer.\<close>

definition byte :: "real \<Rightarrow> real" where
  "byte v = of_int (py_int v mod 256)"

text \<open>
  Lines 309--311.  The colour conversion \<^verbatim>\<open>skimage.color.rgb2lab\<close> is a library function
  that maps every RGB pixel to a Lab pixel; it is the parameter \<open>rgb2lab\<close>.  It requires
  three channels.  The result has shape \<open>(1, 3, h, w)\<close>.
\<close>

definition images_lab_of ::
    "(real \<times> real \<times> real \<Rightarrow> real \<times> real \<times> real) \<Rightarrow> tensor \<Rightarrow> error + tensor" where
  "images_lab_of rgb2lab img =
     (if dim img \<noteq> 3 then Inl (RuntimeError ''permute: number of dims does not match'')
      else if shape img ! 0 \<noteq> 3
      then Inl (ValueError ''the input array must have size 3 along channel_axis'')
      else Inr (Tensor [1, 3, shape img ! 1, shape img ! 2]
                 (\<lambda>idx.
                    (case rgb2lab (byte (elems img [0, idx ! 2, idx ! 3]),
                                   byte (elems img [1, idx ! 2, idx ! 3]),
                                   byte (elems img [2, idx ! 2, idx ! 3])) of
                       (l, a, b) \<Rightarrow> if idx ! 1 = 0 then l else if idx ! 1 = 1 then a else b))))"

text \<open>\<^verbatim>\<open>torch.cat([t for _ in range(n)], dim=0)\<close> for \<open>n > 0\<close> copies.\<close>

definition cat_copies :: "tensor \<Rightarrow> nat \<Rightarrow> error + tensor" where
  "cat_copies t n =
     (if n = 0 then Inl (RuntimeError ''torch.cat(): expected a non-empty list of Tensors'')
      else if dim t = 0
      then Inl (RuntimeError ''zero-dimensional tensor cannot be concatenated'')
      else Inr (Tensor ((shape t)[0 := n * (shape t ! 0)])
                 (\<lambda>idx. elems t (idx[0 := idx ! 0 mod (shape t ! 0)]))))"

definition pairwise_size :: int where
  "pairwise_size = 3"

definition pairwise_dilation :: int where
  "pairwise_dilation = 2"

text \<open>
  The loop over \<^verbatim>\<open>enumerate(instances)\<close>; the ground-truth objects are mutated in place,
  so the loop returns them.  Setting a field of an \<open>Instances\<close> object of a different
  length is refused by Detectron2.
\<close>

fun add_bitmasks_loop ::
    "(real \<times> real \<times> real \<Rightarrow> real \<times> real \<times> real) \<Rightarrow> tensor \<Rightarrow> tensor \<Rightarrow> nat
       \<Rightarrow> instances list \<Rightarrow> error + instances list" where
  "add_bitmasks_loop rgb2lab downsampled_images image_masks im_i [] = Inr []"
| "add_bitmasks_loop rgb2lab downsampled_images image_masks im_i (per_im_gt_inst # rest) =
     bind_err (select downsampled_images 0 im_i) (\<lambda>img.
     bind_err (images_lab_of rgb2lab img) (\<lambda>images_lab.
     bind_err (select image_masks 0 im_i) (\<lambda>mask.
     bind_err (get_images_color_similarity images_lab mask pairwise_size pairwise_dilation)
       (\<lambda>images_color_similarity.
     bind_err (len_instances per_im_gt_inst) (\<lambda>n.
     bind_err
       (if 0 < n
        then bind_err (cat_copies images_color_similarity n) (\<lambda>cs.
             if shape cs ! 0 \<noteq> n
             then Inl (AssertionError Assert_field_length)
             else Inr (per_im_gt_inst\<lparr>image_color_similarity := Some cs\<rparr>))
        else Inr per_im_gt_inst) (\<lambda>inst'.
     bind_err (add_bitmasks_loop rgb2lab downsampled_images image_masks (Suc im_i) rest)
       (\<lambda>rest'.
     Inr (inst' # rest'))))))))"

definition add_bitmasks_from_boxes ::
    "(real \<times> real \<times> real \<Rightarrow> real \<times> real \<times> real) \<Rightarrow> instances list \<Rightarrow> tensor \<Rightarrow> tensor
       \<Rightarrow> error + instances list" where
  "add_bitmasks_from_boxes rgb2lab instances images image_masks =
     (let stride = 4; start = stride div 2
      in bind_err (size_at images 2) (\<lambda>s2.
         if s2 mod stride \<noteq> 0 then Inl (AssertionError Assert_height_stride)
         else
         bind_err (size_at images 3) (\<lambda>s3.
         if s3 mod stride \<noteq> 0 then Inl (AssertionError Assert_width_stride)
         else
         bind_err (avg_pool2d images stride) (\<lambda>downsampled_images.
         bind_err (strided image_masks start stride) (\<lambda>image_masks'.
         add_bitmasks_loop rgb2lab downsampled_images image_masks' 0 instances)))))"

text \<open>The training branch of \<open>forward\<close>, lines 213--217: targets for the criterion.\<close>

definition training_targets ::
    "(real \<times> real \<times> real \<Rightarrow> real \<times> real \<times> real) \<Rightarrow> instances list \<Rightarrow> tensor \<Rightarrow> tensor
       \<Rightarrow> error + target list" where
  "training_targets rgb2lab gt_instances images image_masks =
     bind_err (add_bitmasks_from_boxes rgb2lab gt_instances images image_masks) prepare_targets"

section \<open>Inference\<close>

subsection \<open>\<open>rescoring_mask\<close> (lines 65--68)\<close>

text \<open>\<^verbatim>\<open>.float()\<close> on a Boolean mask, the sum over both spatial axes, the pointwise product.\<close>

definition to_float :: "bool list list \<Rightarrow> real list list" where
  "to_float m = map (map (\<lambda>b. if b then 1 else 0)) m"

definition sum2 :: "real list list \<Rightarrow> real" where
  "sum2 m = sum_list (map sum_list m)"

definition mul2 :: "real list list \<Rightarrow> real list list \<Rightarrow> real list list" where
  "mul2 a b = map2 (map2 (*)) a b"

definition rescoring_mask ::
    "real list \<Rightarrow> bool list list list \<Rightarrow> real list list list \<Rightarrow> real list" where
  "rescoring_mask scores' mask_pred masks' =
     (let mask_pred_f = map to_float mask_pred
      in map2 (*) scores'
           (map2 (/) (map2 (\<lambda>m p. sum2 (mul2 m p)) masks' mask_pred_f)
                     (map (\<lambda>p. sum2 p + 1 / 1000000) mask_pred_f)))"

text \<open>
  The formula in the words of the specification, section 4.5, for comparison:
  \<open>score * (sum(boolean_mask * soft_mask) / (sum(soft_mask) + epsilon))\<close>.
\<close>

definition rescoring_mask_spec ::
    "real list \<Rightarrow> bool list list list \<Rightarrow> real list list list \<Rightarrow> real list" where
  "rescoring_mask_spec scores' boolean_mask soft_mask =
     map2 (*) scores'
       (map2 (/) (map2 (\<lambda>b m. sum2 (mul2 (to_float b) m)) boolean_mask soft_mask)
                 (map (\<lambda>m. sum2 m + 1 / 1000000) soft_mask))"

subsection \<open>Bilinear resampling\<close>

text \<open>
  \<^verbatim>\<open>F.interpolate(x, size=(oh, ow), mode="bilinear", align_corners=False)\<close> on a stack of
  masks.  Along one axis, output position \<open>dst\<close> reads the input positions \<open>i0\<close> and \<open>i1\<close>
  with weights \<open>1 - lam\<close> and \<open>lam\<close>; the library refuses empty inputs and outputs.
\<close>

definition bilinear_axis :: "nat \<Rightarrow> nat \<Rightarrow> nat \<Rightarrow> nat \<times> nat \<times> real" where
  "bilinear_axis in_size out_size dst =
     (if out_size = in_size then (dst, dst, 0)
      else
        (let src = max 0 (real in_size / real out_size * (real dst + 0.5) - 0.5);
             i0 = min (nat \<lfloor>src\<rfloor>) (in_size - 1);
             i1 = (if i0 < in_size - 1 then i0 + 1 else i0);
             lam = min (max (src - real i0) 0) 1
         in (i0, i1, lam)))"

definition bilinear_sample ::
    "real list list \<Rightarrow> nat \<Rightarrow> nat \<Rightarrow> nat \<Rightarrow> nat \<Rightarrow> nat \<Rightarrow> nat \<Rightarrow> real" where
  "bilinear_sample m ih iw oh ow y x =
     (case bilinear_axis ih oh y of (y0, y1, ly) \<Rightarrow>
      case bilinear_axis iw ow x of (x0, x1, lx) \<Rightarrow>
        (1 - ly) * ((1 - lx) * m ! y0 ! x0 + lx * m ! y0 ! x1)
        + ly * ((1 - lx) * m ! y1 ! x0 + lx * m ! y1 ! x1))"

definition interpolate :: "real list list list \<Rightarrow> nat \<times> nat \<Rightarrow> error + real list list list" where
  "interpolate ms sz =
     (case sz of (oh, ow) \<Rightarrow>
        (let ih = (case ms of [] \<Rightarrow> 0 | m # _ \<Rightarrow> length m);
             iw = (case ms of (r # _) # _ \<Rightarrow> length r | _ \<Rightarrow> 0)
         in if ih = 0 \<or> iw = 0 \<or> oh = 0 \<or> ow = 0
            then Inl (RuntimeError ''Input and output sizes should be greater than 0'')
            else Inr (map (\<lambda>m. map (\<lambda>y. map (\<lambda>x. bilinear_sample m ih iw oh ow y x) [0..<ow])
                                    [0..<oh]) ms)))"

text \<open>\<^verbatim>\<open>x[:, :, :h, :w]\<close>: the crop to the unpadded region.\<close>

definition crop :: "real list list list \<Rightarrow> nat \<Rightarrow> nat \<Rightarrow> real list list list" where
  "crop ms h w = map (\<lambda>m. map (take w) (take h m)) ms"

subsection \<open>\<open>SparseInst.inference\<close> (lines 243--293)\<close>

record model_cfg =
  cls_threshold :: real
  mask_threshold :: real
  max_detections :: nat

record batched_input =
  height :: nat
  width :: nat

definition sigmoid :: "real \<Rightarrow> real" where
  "sigmoid v = 1 / (1 + exp (- v))"

text \<open>
  Lines 246, 248 and 249: the class logits have shape \<open>(batch, slots, classes)\<close>, the
  objectness logits one entry for every slot, which is multiplied into every class.
\<close>

definition combined_scores :: "real list list list \<Rightarrow> real list list \<Rightarrow> real list list list" where
  "combined_scores pred_logits pred_objectness =
     map2 (map2 (\<lambda>cls obj. map (\<lambda>l. sqrt (sigmoid l * sigmoid obj)) cls))
       pred_logits pred_objectness"

text \<open>
  \<^verbatim>\<open>t.max(dim=-1)\<close> on one slot: the greatest entry and the first position that holds
  it.  The reduction refuses an axis of extent 0.
\<close>

definition max_value :: "real list \<Rightarrow> real" where
  "max_value xs = foldl max (hd xs) (tl xs)"

definition argmax :: "real list \<Rightarrow> nat" where
  "argmax xs = length (takeWhile (\<lambda>v. v \<noteq> max_value xs) xs)"

definition max_last_dim :: "real list list \<Rightarrow> error + real list \<times> nat list" where
  "max_last_dim t =
     (if \<exists>row \<in> set t. row = []
      then Inl (RuntimeError ''max(): Expected reduction dim to have non-zero size'')
      else Inr (map max_value t, map argmax t))"

text \<open>\<^verbatim>\<open>x[keep]\<close> with a Boolean index along the first axis.\<close>

definition boolean_index :: "'a list \<Rightarrow> bool list \<Rightarrow> error + 'a list" where
  "boolean_index xs keep =
     (if length xs \<noteq> length keep
      then Inl (IndexError ''The shape of the mask does not match the indexed tensor'')
      else Inr (map fst (filter snd (zip xs keep))))"

text \<open>The body of the loop for one image, lines 254--291.\<close>

definition inference_image ::
    "model_cfg \<Rightarrow> nat \<times> nat \<Rightarrow> real list list \<Rightarrow> real list list list \<Rightarrow> batched_input
       \<Rightarrow> nat \<times> nat \<Rightarrow> error + instances" where
  "inference_image cfg max_shape scores_per_image mask_pred_per_image batched_input' img_shape =
     (let ori_shape = (height batched_input', width batched_input');
          result = Instances ori_shape
      in bind_err (max_last_dim scores_per_image) (\<lambda>(scores0, labels0).
         (let keep = map (\<lambda>v. cls_threshold cfg < v) scores0
          in bind_err (boolean_index scores0 keep) (\<lambda>scores1.
             bind_err (boolean_index labels0 keep) (\<lambda>labels1.
             bind_err (boolean_index mask_pred_per_image keep) (\<lambda>mask_pred_per_image1.
             if length scores1 = 0
             then Inr (result\<lparr>scores := Some scores1, pred_classes := Some labels1\<rparr>)
             else
               (case img_shape of (h, w) \<Rightarrow>
                 (let scores2 = rescoring_mask scores1
                        (map (map (map (\<lambda>v. mask_threshold cfg < v))) mask_pred_per_image1)
                        mask_pred_per_image1
                  in bind_err (interpolate mask_pred_per_image1 max_shape) (\<lambda>up.
                     bind_err (interpolate (crop up h w) ori_shape) (\<lambda>mask_pred_per_image2.
                     (let mask_pred =
                            map (map (map (\<lambda>v. mask_threshold cfg < v))) mask_pred_per_image2
                      in Inr (result\<lparr>pred_masks := Some mask_pred, scores := Some scores2,
                                      pred_classes := Some labels1\<rparr>))))))))))))"

fun inference_loop ::
    "model_cfg \<Rightarrow> nat \<times> nat
       \<Rightarrow> (real list list \<times> real list list list \<times> batched_input \<times> (nat \<times> nat)) list
       \<Rightarrow> instances list \<Rightarrow> error + instances list" where
  "inference_loop cfg max_shape [] results = Inr results"
| "inference_loop cfg max_shape ((scores_per_image, mask_pred_per_image, batched_input',
       img_shape) # rest) results =
     bind_err (inference_image cfg max_shape scores_per_image mask_pred_per_image
                 batched_input' img_shape) (\<lambda>result.
     inference_loop cfg max_shape rest (results @ [result]))"

definition inference ::
    "model_cfg \<Rightarrow> real list list list \<Rightarrow> real list list list list \<Rightarrow> real list list
       \<Rightarrow> batched_input list \<Rightarrow> nat \<times> nat \<Rightarrow> (nat \<times> nat) list \<Rightarrow> error + instances list" where
  "inference cfg pred_logits output_pred_masks pred_objectness batched_inputs max_shape
       image_sizes =
     (let pred_scores = combined_scores pred_logits pred_objectness;
          pred_masks' = map (map (map (map sigmoid))) output_pred_masks
      in inference_loop cfg max_shape
           (zip pred_scores (zip pred_masks' (zip batched_inputs image_sizes))) [])"

section \<open>Example inputs\<close>

definition result_shape :: "error + tensor \<Rightarrow> error + nat list" where
  "result_shape r = map_sum id shape r"

definition ex_images :: tensor where
  "ex_images = Tensor [1, 3, 2, 2] (\<lambda>idx. real (idx ! 1 + idx ! 2 + idx ! 3))"

definition ex_image_masks :: tensor where
  "ex_image_masks = Tensor [2, 2] (\<lambda>idx. 1)"

definition entry_at :: "error + tensor \<Rightarrow> nat list \<Rightarrow> error + real" where
  "entry_at r idx = map_sum id (\<lambda>t. elems t idx) r"

text \<open>
  A row of three Lab pixels: two blue ones, about \<open>(30, 80, -108)\<close>, and a yellow one,
  about \<open>(97, -22, 94)\<close>.
\<close>

definition ex_blue_yellow :: tensor where
  "ex_blue_yellow = Tensor [1, 3, 1, 3]
     (\<lambda>idx. if idx ! 3 = 2 then [97, - 22, 94] ! (idx ! 1) else [30, 80, - 108] ! (idx ! 1))"

definition ex_row_masks :: tensor where
  "ex_row_masks = Tensor [1, 3] (\<lambda>idx. 1)"

definition ex_color_sim :: tensor where
  "ex_color_sim = Tensor [1, 8, 1, 1] (\<lambda>idx. 1)"

definition ex_gt :: instances where
  "ex_gt = (Instances (4, 5))\<lparr>gt_boxes := Some [(1, 1, 5 / 2, 2)], gt_classes := Some [7],
                               image_color_similarity := Some ex_color_sim\<rparr>"

definition ex_target :: target where
  "ex_target = \<lparr>color_sim = ex_color_sim, labels = [7], boxes = [(1, 1, 5 / 2, 2)],
                 masks = [[[False, False, False, False, False],
                           [False, True, True, False, False],
                           [False, True, True, False, False],
                           [False, False, False, False, False]]]\<rparr>"

definition ex_batch_of_two :: tensor where
  "ex_batch_of_two = Tensor [2, 3, 2, 2] (\<lambda>idx. 0)"

definition ex_padded_6_8 :: tensor where
  "ex_padded_6_8 = Tensor [1, 3, 6, 8] (\<lambda>idx. 0)"

definition ex_padded_8_6 :: tensor where
  "ex_padded_8_6 = Tensor [1, 3, 8, 6] (\<lambda>idx. 0)"

definition ex_cfg :: model_cfg where
  "ex_cfg = \<lparr>cls_threshold = 1 / 2, mask_threshold = 9 / 20, max_detections = 100\<rparr>"

definition ex_cfg_low :: model_cfg where
  "ex_cfg_low = \<lparr>cls_threshold = 1 / 4, mask_threshold = 9 / 20, max_detections = 100\<rparr>"

definition ex_input_1 :: batched_input where
  "ex_input_1 = \<lparr>height = 1, width = 1\<rparr>"

definition ex_input_2 :: batched_input where
  "ex_input_2 = \<lparr>height = 2, width = 3\<rparr>"

definition ex_detection :: instances where
  "ex_detection = (Instances (2, 3))
     \<lparr>pred_masks := Some [[[True, True, True], [True, True, True]]],
      scores := Some [250000 / 1000001], pred_classes := Some [0]\<rparr>"

definition ex_kept :: instances where
  "ex_kept = (Instances (1, 1))
     \<lparr>pred_masks := Some [[[True]]],
      scores := Some [562500 / 1000001], pred_classes := Some [1]\<rparr>"

definition ex_empty :: instances where
  "ex_empty = (Instances (4, 4))\<lparr>gt_boxes := Some [], gt_classes := Some []\<rparr>"

definition ex_padded :: tensor where
  "ex_padded = Tensor [1, 3, 4, 4] (\<lambda>idx. 0)"

definition ex_padded_masks :: tensor where
  "ex_padded_masks = Tensor [1, 4, 4] (\<lambda>idx. 1)"

section \<open>Verification: the unfold primitive\<close>

lemma same_padding:
  fixes k d :: int
  assumes "k mod 2 = 1"
  shows "2 * ((k + (d - 1) * (k - 1)) div 2) = d * (k - 1)"
proof -
  obtain m where k: "k = 2 * m + 1"
    using assms by (metis mult_div_mod_eq)
  have "k + (d - 1) * (k - 1) = 2 * (m * d) + 1"
    by (simp add: k algebra_simps)
  then have "(k + (d - 1) * (k - 1)) div 2 = m * d"
    by simp
  then show ?thesis
    by (simp add: k algebra_simps)
qed

lemma F_unfold_same:
  assumes sh: "shape x = [b, c, h, w]" and pos: "0 < c" "0 < h" "0 < w"
    and k: "0 < k" "k mod 2 = 1" and d: "0 < d"
  shows "\<exists>u. F_unfold x k ((k + (d - 1) * (k - 1)) div 2) d = Inr u
           \<and> shape u = [b, c * nat (k * k), h * w]"
proof -
  let ?p = "(k + (d - 1) * (k - 1)) div 2"
  have p2: "2 * ?p = d * (k - 1)" by (rule same_padding [OF k(2)])
  have "0 \<le> d * (k - 1)" using k d by simp
  then have p0: "\<not> ?p < 0" using p2 by linarith
  have oh: "int h + 2 * ?p - (d * (k - 1) + 1) + 1 = int h"
    and ow: "int w + 2 * ?p - (d * (k - 1) + 1) + 1 = int w"
    using p2 by simp_all
  show ?thesis
    using sh pos k d p0 by (simp add: F_unfold_def dim_def Let_def p2)
qed

lemma reshape_infer:
  assumes sh: "shape u = [b, c * kk, h * w]" and pos: "0 < b" "0 < c" "0 < h" "0 < w"
  shows "\<exists>v. reshape u [int b, int c, - 1, int h, int w] = Inr v
           \<and> shape v = [b, c, kk, h, w]"
proof -
  have known: "b * (c * (h * w)) \<noteq> 0" using pos by simp
  have n: "numel u = kk * (b * (c * (h * w)))"
    by (simp add: numel_def sh algebra_simps)
  show ?thesis
    using known by (simp add: reshape_def Let_def n)
qed

lemma unfold_keeps_extents:
  assumes sh: "shape x = [b, c, h, w]" and pos: "0 < b" "0 < c" "0 < h" "0 < w"
    and k: "0 < k" "k mod 2 = 1" and d: "0 < d"
  shows "\<exists>y. unfold_wo_center x k d = Inr y \<and> shape y = [b, c, nat (k * k - 1), h, w]"
proof -
  obtain u where u: "F_unfold x k ((k + (d - 1) * (k - 1)) div 2) d = Inr u"
      "shape u = [b, c * nat (k * k), h * w]"
    using F_unfold_same [OF sh pos(2-4) k d] by blast
  obtain v where v: "reshape u [int b, int c, - 1, int h, int w] = Inr v"
      "shape v = [b, c, nat (k * k), h, w]"
    using reshape_infer [OF u(2) pos] by blast
  have kk: "0 < k * k" using k by simp
  then have half: "0 \<le> (k * k) div 2" "(k * k) div 2 + 1 \<le> k * k" by simp_all
  have cnt: "nat ((k * k) div 2) + (nat (k * k) - nat ((k * k) div 2 + 1)) = nat (k * k - 1)"
    using half by linarith
  obtain l where l: "slice_dim v 2 None (Some ((k * k) div 2)) = Inr l"
      "shape l = [b, c, nat ((k * k) div 2), h, w]"
    using half by (simp add: slice_dim_def dim_def v slice_indices_def slice_bound_def)
  obtain r where r: "slice_dim v 2 (Some ((k * k) div 2 + 1)) None = Inr r"
      "shape r = [b, c, nat (k * k) - nat ((k * k) div 2 + 1), h, w]"
    using half by (simp add: slice_dim_def dim_def v slice_indices_def slice_bound_def)
  have "\<exists>y. cat2 l r 2 = Inr y \<and> shape y = [b, c, nat (k * k - 1), h, w]"
    by (simp add: cat2_def dim_def l r cnt Let_def)
  then show ?thesis
    by (simp add: unfold_wo_center_def dim_def sh k u v l r bind_err_def power2_eq_square)
qed

text \<open>
  Claim C5.  For a 4D input of shape \<open>(b, c, h, w)\<close> with non-zero extents, an odd kernel
  size \<open>k \<ge> 3\<close> and a dilation \<open>d \<ge> 1\<close>, \<open>unfold_wo_center\<close> returns a tensor of shape
  \<open>(b, c, k * k - 1, h, w)\<close>: the padding \<open>(k + (d - 1) * (k - 1)) div 2\<close> keeps the spatial
  extents, and the centre is removed from the \<open>k * k\<close> neighbours.  (The library rejects
  tensors with an extent 0, so the extents are taken positive.)
\<close>

theorem unfold_wo_center_shape:
  assumes "shape x = [b, c, h, w]" and "0 < b" "0 < c" "0 < h" "0 < w"
    and "3 \<le> k" "k mod 2 = 1" and "1 \<le> d"
  shows "\<exists>y. unfold_wo_center x k d = Inr y \<and> shape y = [b, c, nat (k * k - 1), h, w]"
  using unfold_keeps_extents [of x b c h w k d] assms by simp

theorem unfold_wo_center_shape_witness:
  "shape ex_images = [1, 3, 2, 2] \<and> (3::int) mod 2 = 1
     \<and> result_shape (unfold_wo_center ex_images 3 2) = Inr [1, 3, 8, 2, 2]"
  using unfold_wo_center_shape [of ex_images 1 3 2 2 3 2]
  by (auto simp: ex_images_def result_shape_def)

section \<open>Verification: pseudo-masks\<close>

lemma slice_bound_nonneg: "0 \<le> i \<Longrightarrow> slice_bound n i = nat (min i (int n))"
  by (simp add: slice_bound_def)

lemma assign_slice_length: "length (assign_slice m r0 r1 c0 c1 v) = length m"
  by (simp add: assign_slice_def split: prod.splits)

lemma assign_slice_row_length:
  "r < length m \<Longrightarrow> length (assign_slice m r0 r1 c0 c1 v ! r) = length (m ! r)"
  by (simp add: assign_slice_def nth_enumerate_eq split: prod.splits)

lemma assign_slice_nth:
  assumes "r < length m" "c < length (m ! r)"
  shows "assign_slice m r0 r1 c0 c1 v ! r ! c =
     (if fst (slice_indices (length m) (Some r0) (Some r1)) \<le> r
         \<and> r < snd (slice_indices (length m) (Some r0) (Some r1))
         \<and> fst (slice_indices (length (m ! r)) (Some c0) (Some c1)) \<le> c
         \<and> c < snd (slice_indices (length (m ! r)) (Some c0) (Some c1))
      then v else m ! r ! c)"
  using assms by (simp add: assign_slice_def nth_enumerate_eq split: prod.splits)

lemma box_bitmask_length: "length (box_bitmask h w b) = h"
  by (simp add: box_bitmask_def assign_slice_length zeros_def split: prod.splits)

lemma box_bitmask_row_length: "r < h \<Longrightarrow> length (box_bitmask h w b ! r) = w"
  by (simp add: box_bitmask_def assign_slice_row_length zeros_def split: prod.splits)


lemma slice_lo: "0 \<le> i \<Longrightarrow> r < n \<Longrightarrow> (slice_bound n i \<le> r) = (i \<le> int r)"
  by (auto simp: slice_bound_def min_def)

lemma slice_hi: "0 \<le> i \<Longrightarrow> r < n \<Longrightarrow> (r < slice_bound n i) = (int r < i)"
  by (auto simp: slice_bound_def min_def)

lemma zeros_nth: "r < h \<Longrightarrow> c < w \<Longrightarrow> zeros h w ! r ! c = 0"
  by (simp add: zeros_def)

lemma zeros_length: "length (zeros h w) = h" "r < h \<Longrightarrow> length (zeros h w ! r) = w"
  by (simp_all add: zeros_def)

lemma box_bitmask_nth:
  assumes r: "r < h" and c: "c < w"
    and nn: "0 \<le> py_int y1" "0 \<le> py_int (y2 + 1)" "0 \<le> py_int x1" "0 \<le> py_int (x2 + 1)"
  shows "box_bitmask h w (x1, y1, x2, y2) ! r ! c =
     (if py_int y1 \<le> int r \<and> int r < py_int (y2 + 1)
         \<and> py_int x1 \<le> int c \<and> int c < py_int (x2 + 1) then 1 else 0)"
proof -
  have "box_bitmask h w (x1, y1, x2, y2) ! r ! c =
      (if slice_bound h (py_int y1) \<le> r \<and> r < slice_bound h (py_int (y2 + 1))
          \<and> slice_bound w (py_int x1) \<le> c \<and> c < slice_bound w (py_int (x2 + 1))
       then 1 else 0)"
    using r c
    by (simp only: box_bitmask_def prod.case assign_slice_nth zeros_length zeros_nth
        slice_indices_def option.case fst_conv snd_conv)
  then show ?thesis
    by (simp only: slice_lo [OF nn(1) r] slice_hi [OF nn(2) r] slice_lo [OF nn(3) c]
        slice_hi [OF nn(4) c])
qed

lemma py_int_of_nat: "py_int (real n) = int n"
  by (simp add: py_int_def)

lemma box_bitmask_full:
  "box_bitmask h w (0, 0, real w - 1, real h - 1) = replicate h (replicate w 1)"
proof -
  let ?m = "box_bitmask h w (0, 0, real w - 1, real h - 1)"
  have z: "py_int 0 = 0" by (simp add: py_int_def)
  have hw: "py_int (real h - 1 + 1) = int h" "py_int (real w - 1 + 1) = int w"
    by (simp_all add: py_int_of_nat)
  have entry: "?m ! r ! c = 1" if "r < h" "c < w" for r c
    using that box_bitmask_nth [OF that, of 0 "real h - 1" 0 "real w - 1"]
    by (simp add: z py_int_of_nat)
  have row: "?m ! r = replicate w 1" if "r < h" for r
    using that by (intro nth_equalityI) (simp_all add: box_bitmask_row_length entry)
  show ?thesis
    by (intro nth_equalityI) (simp_all add: box_bitmask_length row)
qed

lemma prepare_target_Inr:
  assumes "prepare_target t = Inr tg"
  shows "\<exists>bs cls cs. gt_boxes t = Some bs \<and> bs \<noteq> [] \<and> gt_classes t = Some cls
           \<and> image_color_similarity t = Some cs
           \<and> tg = \<lparr>color_sim = cs, labels = cls, boxes = bs,
                   masks = BitMasks (map (box_bitmask (fst (image_size t)) (snd (image_size t))) bs)\<rparr>"
  using assms
  by (auto simp: prepare_target_def bind_err_def get_field_def torch_stack_def Let_def
      split: option.splits prod.splits if_splits)

lemma prepare_targets_loop_Inr:
  "prepare_targets_loop ts acc = Inr new \<Longrightarrow>
     \<exists>tgs. new = acc @ tgs \<and> list_all2 (\<lambda>t tg. prepare_target t = Inr tg) ts tgs"
proof (induction ts arbitrary: acc)
  case Nil
  then show ?case by simp
next
  case (Cons t ts)
  then obtain tg where tg: "prepare_target t = Inr tg"
      and rest: "prepare_targets_loop ts (acc @ [tg]) = Inr new"
    by (auto simp: bind_err_def split: sum.splits)
  from Cons.IH [OF rest] obtain tgs where "new = (acc @ [tg]) @ tgs"
      "list_all2 (\<lambda>t tg. prepare_target t = Inr tg) ts tgs"
    by blast
  then show ?case
    using tg by (intro exI [of _ "tg # tgs"]) simp
qed

lemma prepare_targets_Inr:
  assumes "prepare_targets ts = Inr new"
  shows "list_all2 (\<lambda>t tg. prepare_target t = Inr tg) ts new"
  using prepare_targets_loop_Inr [of ts "[]" new] assms by (simp add: prepare_targets_def)

text \<open>
  Claim C3.  For a box \<open>(x1, y1, x2, y2)\<close> with non-negative coordinates on an image of
  height \<open>h\<close> and width \<open>w\<close>, the pseudo-mask has \<open>h\<close> rows of \<open>w\<close> entries and is 1 exactly
  on the rows \<open>int(y1) .. int(y2 + 1) - 1\<close> and columns \<open>int(x1) .. int(x2 + 1) - 1\<close>, and 0
  elsewhere.  The box \<open>(0, 0, w - 1, h - 1)\<close> gives the all-ones mask.  Whenever
  \<open>prepare_targets\<close> returns, the mask stack of every image lists the pseudo-masks of its
  boxes in the order of the boxes.
\<close>

theorem pseudo_mask_from_box:
  assumes "0 \<le> x1" "0 \<le> y1" "0 \<le> x2" "0 \<le> y2"
  shows "(length (box_bitmask h w (x1, y1, x2, y2)) = h
          \<and> (\<forall>r<h. length (box_bitmask h w (x1, y1, x2, y2) ! r) = w
                \<and> (\<forall>c<w. box_bitmask h w (x1, y1, x2, y2) ! r ! c =
                      (if py_int y1 \<le> int r \<and> int r \<le> py_int (y2 + 1) - 1
                          \<and> py_int x1 \<le> int c \<and> int c \<le> py_int (x2 + 1) - 1
                       then 1 else 0))))
       \<and> box_bitmask h w (0, 0, real w - 1, real h - 1) = replicate h (replicate w 1)
       \<and> (prepare_targets targets = Inr new \<longrightarrow>
            length new = length targets
            \<and> (\<forall>i<length targets. \<exists>bs.
                  gt_boxes (targets ! i) = Some bs \<and> boxes (new ! i) = bs
                  \<and> masks (new ! i) =
                      BitMasks (map (box_bitmask (fst (image_size (targets ! i)))
                                                 (snd (image_size (targets ! i)))) bs)))"
proof (intro conjI allI impI)
  show "length (box_bitmask h w (x1, y1, x2, y2)) = h"
    by (rule box_bitmask_length)
next
  fix r assume "r < h"
  then show "length (box_bitmask h w (x1, y1, x2, y2) ! r) = w"
    by (rule box_bitmask_row_length)
next
  fix r c assume rc: "r < h" "c < w"
  have nn: "0 \<le> py_int y1" "0 \<le> py_int (y2 + 1)" "0 \<le> py_int x1" "0 \<le> py_int (x2 + 1)"
    using assms by (simp_all add: py_int_def)
  show "box_bitmask h w (x1, y1, x2, y2) ! r ! c =
          (if py_int y1 \<le> int r \<and> int r \<le> py_int (y2 + 1) - 1
              \<and> py_int x1 \<le> int c \<and> int c \<le> py_int (x2 + 1) - 1
           then 1 else 0)"
    by (simp add: box_bitmask_nth [OF rc nn])
next
  show "box_bitmask h w (0, 0, real w - 1, real h - 1) = replicate h (replicate w 1)"
    by (rule box_bitmask_full)
next
  assume ok: "prepare_targets targets = Inr new"
  then show "length new = length targets"
    using prepare_targets_Inr [OF ok] by (simp add: list_all2_lengthD)
next
  fix i assume ok: "prepare_targets targets = Inr new" and i: "i < length targets"
  have "prepare_target (targets ! i) = Inr (new ! i)"
    using list_all2_nthD [OF prepare_targets_Inr [OF ok] i] .
  from prepare_target_Inr [OF this]
  show "\<exists>bs. gt_boxes (targets ! i) = Some bs \<and> boxes (new ! i) = bs
          \<and> masks (new ! i) =
              BitMasks (map (box_bitmask (fst (image_size (targets ! i)))
                                         (snd (image_size (targets ! i)))) bs)"
    by auto
qed

lemma ex_prepare: "prepare_targets [ex_gt] = Inr [ex_target]"
  by (simp add: prepare_targets_def prepare_target_def ex_gt_def ex_target_def Instances_def
      bind_err_def get_field_def torch_stack_def BitMasks_def box_bitmask_def assign_slice_def
      zeros_def slice_indices_def slice_bound_def py_int_def enumerate_eq_zip upt_rec
      numeral_2_eq_2 numeral_3_eq_3 eval_nat_numeral)

theorem pseudo_mask_from_box_witness:
  "(0::real) \<le> 1 \<and> (0::real) \<le> 5 / 2 \<and> (0::real) \<le> 2
     \<and> prepare_targets [ex_gt] = Inr [ex_target]
     \<and> length (box_bitmask 4 5 (1, 1, 5 / 2, 2)) = 4
     \<and> masks ex_target = BitMasks [box_bitmask 4 5 (1, 1, 5 / 2, 2)]"
  using pseudo_mask_from_box [of 1 1 "5 / 2" 2 4 5 "[ex_gt]" "[ex_target]"] ex_prepare
  by (simp add: ex_gt_def Instances_def)

section \<open>Verification: colour similarity\<close>

lemma broadcast_shapes_same: "broadcast_shapes sh sh = Some sh"
proof -
  have a: "list_all2 (\<lambda>p q. p = q \<or> p = 1 \<or> q = 1) sh sh"
    by (simp add: list_all2_same)
  have b: "map2 (\<lambda>p q. if p = 1 then q else p) sh sh = sh"
    by (induction sh) auto
  show ?thesis
    using a b by (simp add: broadcast_shapes_def)
qed

lemma binop_same_shape:
  assumes "shape a = shape b"
  shows "\<exists>y. binop f a b = Inr y \<and> shape y = shape a"
  by (simp add: binop_def assms broadcast_shapes_same)

lemma similarity_of_shape:
  assumes sh: "shape images = [1, c, h, w]" and pos: "0 < c" "0 < h" "0 < w"
    and k: "0 < k" "k mod 2 = 1" and d: "0 < d"
  shows "\<exists>s. similarity_of images k d = Inr s \<and> shape s = [1, nat (k * k - 1), h, w]"
proof -
  obtain y where y: "unfold_wo_center images k d = Inr y"
      "shape y = [1, c, nat (k * k - 1), h, w]"
    using unfold_keeps_extents [OF sh _ pos k d] by auto
  have bc: "broadcast_shapes [1, c, 1, h, w] [1, c, nat (k * k - 1), h, w]
              = Some [1, c, nat (k * k - 1), h, w]"
    by (simp add: broadcast_shapes_def)
  show ?thesis
    using bc
    by (simp add: similarity_of_def color_distance_of_def y bind_err_def unsqueeze_def dim_def
        sh binop_def norm_dim_def map_tensor_def)
qed

lemma unfolded_weights_of_shape:
  assumes sh: "shape image_masks = [h, w]" and pos: "0 < h" "0 < w"
    and k: "0 < k" "k mod 2 = 1" and d: "0 < d"
  shows "\<exists>u. unfolded_weights_of image_masks k d = Inr u
           \<and> shape u = [1, nat (k * k - 1), h, w]"
proof -
  obtain m1 where m1: "unsqueeze image_masks 0 = Inr m1" "shape m1 = [1, h, w]"
    by (simp add: unsqueeze_def sh)
  obtain m2 where m2: "unsqueeze m1 0 = Inr m2" "shape m2 = [1, 1, h, w]"
    by (simp add: unsqueeze_def m1)
  obtain y where y: "unfold_wo_center m2 k d = Inr y"
      "shape y = [1, 1, nat (k * k - 1), h, w]"
    using unfold_keeps_extents [OF m2(2) _ _ pos k d] by auto
  show ?thesis
    by (simp add: unfolded_weights_of_def m1 m2 bind_err_def y select_def dim_def)
qed

lemma builder_result_shape:
  assumes sh: "shape images = [1, c, h, w]" and shm: "shape image_masks = [h, w]"
    and pos: "0 < c" "0 < h" "0 < w"
    and k: "0 < k" "k mod 2 = 1" and d: "0 < d"
  shows "\<exists>out. get_images_color_similarity images image_masks k d = Inr out
           \<and> shape out = [1, nat (k * k - 1), h, w]"
proof -
  obtain s where s: "similarity_of images k d = Inr s" "shape s = [1, nat (k * k - 1), h, w]"
    using similarity_of_shape [OF sh pos k d] by blast
  obtain u where u: "unfolded_weights_of image_masks k d = Inr u"
      "shape u = [1, nat (k * k - 1), h, w]"
    using unfolded_weights_of_shape [OF shm pos(2,3) k d] by blast
  have "shape s = shape u" by (simp add: s u)
  from binop_same_shape [OF this, of "(*)"] show ?thesis
    by (simp add: get_images_color_similarity_def dim_def sh s u bind_err_def)
qed

lemma exp_one_lower: "5 / 2 \<le> exp (1::real)"
  using exp_lower_Taylor_quadratic [of "1::real"] by simp

lemma exp_of_numeral: "exp (real n) = exp 1 ^ n"
  using exp_of_nat_mult [of n "1::real"] by simp

lemma exp_f32_range:
  assumes "v \<le> 0"
  shows "0 \<le> exp_f32 v \<and> exp_f32 v \<le> 1"
  using assms by (simp add: exp_f32_def)

lemma exp_f32_underflow:
  assumes "v \<le> - 118"
  shows "exp_f32 v = 0"
proof -
  have "(2::real) ^ 268 \<le> 5 ^ 118" by simp
  then have "(2::real) ^ 150 \<le> (5 / 2) ^ 118"
    by (simp add: power_divide field_simps)
  also have "\<dots> \<le> exp 1 ^ 118"
    by (intro power_mono exp_one_lower) simp
  also have "\<dots> = exp (real 118)"
    by (simp only: exp_of_numeral)
  finally have big: "(2::real) ^ 150 \<le> exp 118" by simp
  have "exp v \<le> exp (- 118)" using assms by simp
  also have "\<dots> = 1 / exp 118" by (simp add: exp_minus field_simps)
  also have "\<dots> \<le> 1 / 2 ^ 150"
    using big by (intro divide_left_mono) simp_all
  finally show ?thesis by (simp add: exp_f32_def)
qed

lemma exp_f32_positive:
  assumes "- 85 \<le> v"
  shows "0 < exp_f32 v"
proof -
  have "exp (real 85) = exp 1 ^ 85" by (simp only: exp_of_numeral)
  also have "\<dots> \<le> 3 ^ 85"
    by (intro power_mono exp_le) simp
  also have "\<dots> < (2::real) ^ 150" by simp
  finally have small: "exp 85 < (2::real) ^ 150" by simp
  have "1 / 2 ^ 150 < 1 / exp (85::real)"
    using small by (intro divide_strict_left_mono) simp_all
  also have "\<dots> = exp (- 85)" by (simp add: exp_minus field_simps)
  also have "\<dots> \<le> exp v" using assms by simp
  finally show ?thesis by (simp add: exp_f32_def)
qed

lemma color_distance_nonneg:
  assumes "color_distance_of images k d = Inr n"
  shows "0 \<le> elems n idx"
proof -
  have nn: "0 \<le> (\<Sum>c\<leftarrow>cs. (g c)\<^sup>2)" for cs :: "nat list" and g :: "nat \<Rightarrow> real"
    by (rule sum_list_nonneg) auto
  from assms show ?thesis
    by (auto simp: color_distance_of_def bind_err_def norm_dim_def nn
        split: sum.splits if_splits)
qed

lemma color_similarity_entry:
  assumes "get_images_color_similarity images image_masks k d = Inr out"
  shows "\<exists>n u. color_distance_of images k d = Inr n \<and> unfolded_weights_of image_masks k d = Inr u
           \<and> (\<forall>idx. elems out idx =
                  exp_f32 (- elems n (bsrc (shape n) idx) * 0.5) * elems u (bsrc (shape u) idx))"
  using assms
  by (auto simp: get_images_color_similarity_def similarity_of_def map_tensor_def bind_err_def
      binop_def split: sum.splits if_splits option.splits)

lemma bsrc_valid:
  assumes "valid_index sh idx"
  shows "bsrc sh idx = idx"
proof -
  from assms have len: "length idx = length sh" and all: "list_all2 (\<lambda>i n. i < n) idx sh"
    by (simp_all add: valid_index_def)
  from all have "map2 (\<lambda>n i. if n = 1 then 0 else i) sh idx = idx"
    by (induction idx sh rule: list_all2_induct) auto
  then show ?thesis
    by (simp add: bsrc_def len)
qed

lemma ex_row_weights:
  "\<exists>u. unfolded_weights_of ex_row_masks 3 2 = Inr u \<and> shape u = [1, 8, 1, 3]
     \<and> elems u [0, 4, 0, 0] = 1"
  by (simp add: unfolded_weights_of_def ex_row_masks_def unsqueeze_def dim_def bind_err_def
      unfold_wo_center_def F_unfold_def reshape_def numel_def slice_dim_def slice_indices_def
      slice_bound_def cat2_def select_def Let_def)

lemma ex_row_distance:
  "\<exists>n. color_distance_of ex_blue_yellow 3 2 = Inr n \<and> shape n = [1, 8, 1, 3]
     \<and> elems n [0, 4, 0, 0] = sqrt 55697"
  by (simp add: color_distance_of_def ex_blue_yellow_def unsqueeze_def dim_def bind_err_def
      unfold_wo_center_def F_unfold_def reshape_def numel_def slice_dim_def slice_indices_def
      slice_bound_def cat2_def binop_def broadcast_shapes_def norm_dim_def Let_def bsrc_def
      upt_rec)

text \<open>
  Claim C7 states that every entry at a position of validity weight 1 lies in \<open>(0, 1]\<close>.
  For a blue pixel whose neighbour at dilation 2 is yellow, the colour distance is
  \<open>sqrt 55697 > 236\<close>, the single-precision exponential of \<open>-118\<close> underflows, and the entry
  is 0 although the weight is 1.
\<close>

theorem color_similarity_underflow_counterexample:
  "entry_at (unfolded_weights_of ex_row_masks 3 2) [0, 4, 0, 0] = Inr 1
   \<and> entry_at (get_images_color_similarity ex_blue_yellow ex_row_masks 3 2) [0, 4, 0, 0] = Inr 0"
proof -
  obtain out where out: "get_images_color_similarity ex_blue_yellow ex_row_masks 3 2 = Inr out"
    using builder_result_shape [of ex_blue_yellow 3 1 3 ex_row_masks 3 2]
    by (auto simp: ex_blue_yellow_def ex_row_masks_def)
  from color_similarity_entry [OF out] obtain n u where
      n: "color_distance_of ex_blue_yellow 3 2 = Inr n"
      and u: "unfolded_weights_of ex_row_masks 3 2 = Inr u"
      and e: "elems out [0, 4, 0, 0] =
                exp_f32 (- elems n (bsrc (shape n) [0, 4, 0, 0]) * 0.5)
                * elems u (bsrc (shape u) [0, 4, 0, 0])"
    by blast
  have b: "bsrc [1, 8, 1, 3] [0, 4, 0, 0] = [0, 4, 0, 0]"
    by (simp add: bsrc_def)
  have dist: "elems n (bsrc (shape n) [0, 4, 0, 0]) = sqrt 55697"
    using ex_row_distance n b by auto
  have wgt: "elems u [0, 4, 0, 0] = 1" "elems u (bsrc (shape u) [0, 4, 0, 0]) = 1"
    using ex_row_weights u b by auto
  have "(236::real) \<le> sqrt 55697"
    by (rule real_le_rsqrt) simp
  then have "exp_f32 (- sqrt 55697 * 0.5) = 0"
    by (intro exp_f32_underflow) simp
  then have "elems out [0, 4, 0, 0] = 0"
    by (simp add: e dist)
  with wgt(1) show ?thesis
    by (simp add: entry_at_def out u)
qed

text \<open>
  Claim C7, amended.  Whenever the colour-similarity builder returns, every entry of its
  output is the single-precision \<open>exp(-0.5 * distance)\<close> of the colour distance times the
  validity weight read at that position.  Where the weight is 1 the entry lies in the
  closed interval \<open>[0, 1]\<close>, and it is positive when the colour distance is at most 170;
  where the weight is 0 the entry is 0.  Distance and weight are read at the broadcast
  position \<open>bsrc\<close>, which is the position itself when their shape is that of the output.
\<close>

theorem color_similarity_range:
  assumes "get_images_color_similarity images image_masks k d = Inr out"
  shows "\<exists>u n. unfolded_weights_of image_masks k d = Inr u
           \<and> color_distance_of images k d = Inr n
           \<and> (\<forall>idx. elems out idx =
                    exp_f32 (- elems n (bsrc (shape n) idx) * 0.5) * elems u (bsrc (shape u) idx)
                  \<and> (elems u (bsrc (shape u) idx) = 1 \<longrightarrow>
                       0 \<le> elems out idx \<and> elems out idx \<le> 1
                       \<and> (elems n (bsrc (shape n) idx) \<le> 170 \<longrightarrow> 0 < elems out idx))
                  \<and> (elems u (bsrc (shape u) idx) = 0 \<longrightarrow> elems out idx = 0))
           \<and> (shape u = shape out \<longrightarrow>
                (\<forall>idx. valid_index (shape out) idx \<longrightarrow> bsrc (shape u) idx = idx))
           \<and> (shape n = shape out \<longrightarrow>
                (\<forall>idx. valid_index (shape out) idx \<longrightarrow> bsrc (shape n) idx = idx))"
proof -
  from color_similarity_entry [OF assms] obtain n u where
      n: "color_distance_of images k d = Inr n" and u: "unfolded_weights_of image_masks k d = Inr u"
      and e: "\<And>idx. elems out idx =
                exp_f32 (- elems n (bsrc (shape n) idx) * 0.5) * elems u (bsrc (shape u) idx)"
    by blast
  have nn: "0 \<le> elems n i" for i
    by (rule color_distance_nonneg [OF n])
  have r: "0 \<le> exp_f32 (- elems n i * 0.5) \<and> exp_f32 (- elems n i * 0.5) \<le> 1" for i
    using nn [of i] by (intro exp_f32_range) simp
  have p: "0 < exp_f32 (- elems n i * 0.5)" if "elems n i \<le> 170" for i
    using that by (intro exp_f32_positive) simp
  show ?thesis
    using u n e r p by (auto simp: bsrc_valid)
qed

lemma ex_weights:
  "\<exists>u. unfolded_weights_of ex_image_masks 3 1 = Inr u \<and> shape u = [1, 8, 2, 2]
     \<and> elems u [0, 7, 0, 0] = 1 \<and> elems u [0, 0, 0, 0] = 0"
  by (simp add: unfolded_weights_of_def ex_image_masks_def unsqueeze_def dim_def bind_err_def
      unfold_wo_center_def F_unfold_def reshape_def numel_def slice_dim_def slice_indices_def
      slice_bound_def cat2_def select_def Let_def)

lemma ex_distance:
  "\<exists>n. color_distance_of ex_images 3 1 = Inr n \<and> shape n = [1, 8, 2, 2]
     \<and> elems n [0, 7, 0, 0] = sqrt 12"
  by (simp add: color_distance_of_def ex_images_def unsqueeze_def dim_def bind_err_def
      unfold_wo_center_def F_unfold_def reshape_def numel_def slice_dim_def slice_indices_def
      slice_bound_def cat2_def binop_def broadcast_shapes_def norm_dim_def Let_def bsrc_def
      upt_rec)

theorem color_similarity_range_witness:
  "\<exists>out u n. get_images_color_similarity ex_images ex_image_masks 3 1 = Inr out
      \<and> unfolded_weights_of ex_image_masks 3 1 = Inr u \<and> shape u = shape out
      \<and> color_distance_of ex_images 3 1 = Inr n \<and> shape n = shape out
      \<and> elems u [0, 7, 0, 0] = 1 \<and> elems n [0, 7, 0, 0] \<le> 170
      \<and> 0 < elems out [0, 7, 0, 0] \<and> elems out [0, 7, 0, 0] \<le> 1
      \<and> elems u [0, 0, 0, 0] = 0 \<and> elems out [0, 0, 0, 0] = 0"
proof -
  obtain out where out: "get_images_color_similarity ex_images ex_image_masks 3 1 = Inr out"
      "shape out = [1, 8, 2, 2]"
    using builder_result_shape [of ex_images 3 2 2 ex_image_masks 3 1]
    by (auto simp: ex_images_def ex_image_masks_def)
  obtain u where u: "unfolded_weights_of ex_image_masks 3 1 = Inr u" "shape u = [1, 8, 2, 2]"
      "elems u [0, 7, 0, 0] = 1" "elems u [0, 0, 0, 0] = 0"
    using ex_weights by blast
  obtain n where n: "color_distance_of ex_images 3 1 = Inr n" "shape n = [1, 8, 2, 2]"
      "elems n [0, 7, 0, 0] = sqrt 12"
    using ex_distance by blast
  have "sqrt 12 \<le> sqrt (170\<^sup>2)"
    by (subst real_sqrt_le_iff) simp
  then have small: "elems n [0, 7, 0, 0] \<le> 170"
    by (simp add: n)
  have b: "bsrc [1, 8, 2, 2] [0, 7, 0, 0] = [0, 7, 0, 0]" "bsrc [1, 8, 2, 2] [0, 0, 0, 0] = [0, 0, 0, 0]"
    by (simp_all add: bsrc_def)
  from color_similarity_range [OF out(1)] u n b small
  have "0 < elems out [0, 7, 0, 0] \<and> elems out [0, 7, 0, 0] \<le> 1 \<and> elems out [0, 0, 0, 0] = 0"
    by (metis sum.inject(2))
  then show ?thesis
    using out u n small by simp
qed

text \<open>
  Claim C8 states a result of shape \<open>(k * k - 1, H, W)\<close> without a batch axis.  On a
  single \<open>2 \<times> 2\<close> image with kernel size 3 the result does not have the shape
  \<open>(8, 2, 2)\<close>.
\<close>

theorem color_similarity_rank3_counterexample:
  "result_shape (get_images_color_similarity ex_images ex_image_masks 3 2) \<noteq> Inr [3 * 3 - 1, 2, 2]"
  using builder_result_shape [of ex_images 3 2 2 ex_image_masks 3 2]
  by (auto simp: ex_images_def ex_image_masks_def result_shape_def)

text \<open>
  Claim C8, amended.  For a single image of shape \<open>(1, c, h, w)\<close> with non-zero extents,
  a mask of shape \<open>(h, w)\<close>, an odd kernel size \<open>k \<ge> 3\<close> and a dilation \<open>d \<ge> 1\<close>, the
  builder returns a tensor of shape \<open>(1, k * k - 1, h, w)\<close>: rank 4, the batch axis of
  extent 1 is kept (and later concatenated over, once for every instance).
\<close>

theorem color_similarity_shape:
  assumes "shape images = [1, c, h, w]" and "shape image_masks = [h, w]"
    and "0 < c" "0 < h" "0 < w" and "3 \<le> k" "k mod 2 = 1" and "1 \<le> d"
  shows "\<exists>out. get_images_color_similarity images image_masks k d = Inr out
           \<and> shape out = [1, nat (k * k - 1), h, w]"
  using builder_result_shape [of images c h w image_masks k d] assms by simp

theorem color_similarity_shape_witness:
  "shape ex_images = [1, 3, 2, 2] \<and> shape ex_image_masks = [2, 2] \<and> (3::int) mod 2 = 1
     \<and> result_shape (get_images_color_similarity ex_images ex_image_masks 3 2) = Inr [1, 8, 2, 2]"
  using color_similarity_shape [of ex_images 3 2 2 ex_image_masks 3 2]
  by (auto simp: ex_images_def ex_image_masks_def result_shape_def)

section \<open>Verification: assertions\<close>

lemma bind_err_Inl:
  "bind_err r f = Inl e \<longleftrightarrow> r = Inl e \<or> (\<exists>v. r = Inr v \<and> f v = Inl e)"
  by (cases r) (simp_all add: bind_err_def)

lemma F_unfold_no_assert: "F_unfold x k p d \<noteq> Inl (AssertionError s)"
  by (simp add: F_unfold_def Let_def)

lemma reshape_no_assert: "reshape x spec \<noteq> Inl (AssertionError s)"
  by (simp add: reshape_def Let_def)

lemma slice_dim_no_assert: "slice_dim x a lo hi \<noteq> Inl (AssertionError s)"
  by (simp add: slice_dim_def split: prod.splits)

lemma cat2_no_assert: "cat2 a b axis \<noteq> Inl (AssertionError s)"
  by (simp add: cat2_def Let_def)

lemma binop_no_assert: "binop f a b \<noteq> Inl (AssertionError s)"
  by (simp add: binop_def split: option.splits)

lemma unsqueeze_no_assert: "unsqueeze x a \<noteq> Inl (AssertionError s)"
  by (simp add: unsqueeze_def)

lemma select_no_assert: "select x a i \<noteq> Inl (AssertionError s)"
  by (simp add: select_def)

lemma norm_dim_no_assert: "norm_dim x a \<noteq> Inl (AssertionError s)"
  by (simp add: norm_dim_def)

lemma size_at_no_assert: "size_at x i \<noteq> Inl (AssertionError s)"
  by (simp add: size_at_def)

lemma avg_pool2d_no_assert: "avg_pool2d x n \<noteq> Inl (AssertionError s)"
  by (simp add: avg_pool2d_def)

lemma strided_no_assert: "strided x a b \<noteq> Inl (AssertionError s)"
  by (simp add: strided_def)

lemma images_lab_of_no_assert: "images_lab_of f x \<noteq> Inl (AssertionError s)"
  by (simp add: images_lab_of_def)

lemma cat_copies_no_assert: "cat_copies x n \<noteq> Inl (AssertionError s)"
  by (simp add: cat_copies_def)

lemma len_instances_no_assert: "len_instances x \<noteq> Inl (AssertionError s)"
  by (simp add: len_instances_def split: option.splits)

lemmas no_assert = F_unfold_no_assert reshape_no_assert slice_dim_no_assert cat2_no_assert
  binop_no_assert unsqueeze_no_assert select_no_assert norm_dim_no_assert size_at_no_assert
  avg_pool2d_no_assert strided_no_assert images_lab_of_no_assert cat_copies_no_assert
  len_instances_no_assert

lemma unfold_wo_center_assert:
  "unfold_wo_center x k d = Inl (AssertionError s) \<longleftrightarrow>
     (dim x \<noteq> 4 \<and> s = Assert_x_dim_4)
     \<or> (dim x = 4 \<and> k mod 2 \<noteq> 1 \<and> s = Assert_kernel_size_odd)"
  by (auto simp: unfold_wo_center_def bind_err_Inl Let_def no_assert)

lemma similarity_of_assert:
  "similarity_of images k d = Inl (AssertionError s) \<longleftrightarrow>
     unfold_wo_center images k d = Inl (AssertionError s)"
  by (auto simp: similarity_of_def color_distance_of_def bind_err_Inl no_assert)

lemma unfolded_weights_of_assert:
  "unfolded_weights_of m k d = Inl (AssertionError s) \<Longrightarrow>
     s = Assert_x_dim_4 \<or> s = Assert_kernel_size_odd"
  by (auto simp: unfolded_weights_of_def bind_err_Inl no_assert unfold_wo_center_assert)

lemma color_similarity_assert:
  "get_images_color_similarity images m k d = Inl (AssertionError s) \<Longrightarrow>
     s \<in> {Assert_images_dim_4, Assert_images_batch_1, Assert_x_dim_4, Assert_kernel_size_odd}"
  by (auto simp: get_images_color_similarity_def bind_err_Inl no_assert
      similarity_of_assert unfold_wo_center_assert
      dest: unfolded_weights_of_assert split: if_splits)

lemma color_similarity_batch_assert:
  "get_images_color_similarity images m k d = Inl (AssertionError Assert_images_batch_1) \<longleftrightarrow>
     dim images = 4 \<and> shape images ! 0 \<noteq> 1"
  by (auto simp: get_images_color_similarity_def bind_err_Inl no_assert
      similarity_of_assert unfold_wo_center_assert
      dest: unfolded_weights_of_assert split: if_splits)

lemma add_bitmasks_loop_assert:
  "add_bitmasks_loop f ds ms i insts = Inl (AssertionError s) \<Longrightarrow>
     s \<noteq> Assert_height_stride \<and> s \<noteq> Assert_width_stride"
proof (induction insts arbitrary: i)
  case Nil
  then show ?case by simp
next
  case (Cons inst rest)
  then show ?case
    by (auto simp: bind_err_Inl no_assert dest!: color_similarity_assert split: if_splits)
qed

lemma add_bitmasks_height_assert:
  "add_bitmasks_from_boxes f insts images ms = Inl (AssertionError Assert_height_stride) \<longleftrightarrow>
     2 < dim images \<and> shape images ! 2 mod 4 \<noteq> 0"
  by (auto simp: add_bitmasks_from_boxes_def bind_err_Inl no_assert size_at_def Let_def
      dest: add_bitmasks_loop_assert split: if_splits)

lemma add_bitmasks_width_assert:
  "add_bitmasks_from_boxes f insts images ms = Inl (AssertionError Assert_width_stride) \<longleftrightarrow>
     3 < dim images \<and> shape images ! 2 mod 4 = 0 \<and> shape images ! 3 mod 4 \<noteq> 0"
  by (auto simp: add_bitmasks_from_boxes_def bind_err_Inl no_assert size_at_def Let_def
      dest: add_bitmasks_loop_assert split: if_splits)

text \<open>
  Claim C9.  Every precondition is enforced by its own assertion, which fails exactly
  when the precondition is violated: \<open>unfold_wo_center\<close> raises the rank assertion iff
  the input is not 4D, the kernel assertion iff the input is 4D and the kernel size is not
  odd, and no assertion at all iff the input is 4D and the kernel size is odd; the
  colour-similarity builder raises the batch assertion iff its 4D image input has a
  batch extent other than 1; \<open>add_bitmasks_from_boxes\<close> raises the height assertion iff
  the padded height is not divisible by 4 and the width assertion iff the height is and
  the width is not.  The result is an error: nothing is coerced or returned.
\<close>

theorem preconditions_asserted:
  "(unfold_wo_center x k d = Inl (AssertionError Assert_x_dim_4) \<longleftrightarrow> dim x \<noteq> 4)
   \<and> (unfold_wo_center x k d = Inl (AssertionError Assert_kernel_size_odd) \<longleftrightarrow>
        dim x = 4 \<and> k mod 2 \<noteq> 1)
   \<and> ((\<exists>a. unfold_wo_center x k d = Inl (AssertionError a)) \<longleftrightarrow> dim x \<noteq> 4 \<or> k mod 2 \<noteq> 1)
   \<and> (get_images_color_similarity images image_masks k d
          = Inl (AssertionError Assert_images_batch_1) \<longleftrightarrow>
        dim images = 4 \<and> shape images ! 0 \<noteq> 1)
   \<and> (add_bitmasks_from_boxes rgb2lab insts padded padded_masks
          = Inl (AssertionError Assert_height_stride) \<longleftrightarrow>
        2 < dim padded \<and> shape padded ! 2 mod 4 \<noteq> 0)
   \<and> (add_bitmasks_from_boxes rgb2lab insts padded padded_masks
          = Inl (AssertionError Assert_width_stride) \<longleftrightarrow>
        3 < dim padded \<and> shape padded ! 2 mod 4 = 0 \<and> shape padded ! 3 mod 4 \<noteq> 0)"
proof (intro conjI)
  show "(\<exists>a. unfold_wo_center x k d = Inl (AssertionError a)) \<longleftrightarrow> dim x \<noteq> 4 \<or> k mod 2 \<noteq> 1"
    unfolding unfold_wo_center_assert by (cases "dim x = 4") auto
qed (simp_all add: unfold_wo_center_assert color_similarity_batch_assert
      add_bitmasks_height_assert add_bitmasks_width_assert)

theorem preconditions_asserted_witness:
  "unfold_wo_center ex_image_masks 3 2 = Inl (AssertionError Assert_x_dim_4)
   \<and> unfold_wo_center ex_images 2 2 = Inl (AssertionError Assert_kernel_size_odd)
   \<and> get_images_color_similarity ex_batch_of_two ex_image_masks 3 2
        = Inl (AssertionError Assert_images_batch_1)
   \<and> add_bitmasks_from_boxes (\<lambda>p. p) [ex_gt] ex_padded_6_8 ex_image_masks
        = Inl (AssertionError Assert_height_stride)
   \<and> add_bitmasks_from_boxes (\<lambda>p. p) [ex_gt] ex_padded_8_6 ex_image_masks
        = Inl (AssertionError Assert_width_stride)
   \<and> unfold_wo_center ex_images 3 2 \<noteq> Inl (AssertionError Assert_x_dim_4)
   \<and> unfold_wo_center ex_images 3 2 \<noteq> Inl (AssertionError Assert_kernel_size_odd)"
  using preconditions_asserted [of ex_image_masks 3 2 ex_batch_of_two ex_image_masks
          "\<lambda>p. p" "[ex_gt]" ex_padded_6_8 ex_image_masks]
        preconditions_asserted [of ex_images 2 2 ex_batch_of_two ex_image_masks
          "\<lambda>p. p" "[ex_gt]" ex_padded_8_6 ex_image_masks]
        preconditions_asserted [of ex_images 3 2 ex_batch_of_two ex_image_masks
          "\<lambda>p. p" "[ex_gt]" ex_padded_8_6 ex_image_masks]
  by (simp add: dim_def ex_image_masks_def ex_images_def ex_batch_of_two_def
      ex_padded_6_8_def ex_padded_8_6_def)

section \<open>Verification: mask rescoring\<close>

text \<open>
  Claim C4 states the formula with the sum of the soft mask in the denominator, and
  monotonicity and the perfect-overlap identity for it.  The code divides by the sum of
  the Boolean mask.  On a \<open>1 \<times> 2\<close> mask the two formulas differ; with the soft mask
  fixed, a Boolean mask with a greater overlap sum gets a smaller score; and a Boolean
  mask covering the support of the soft mask leaves the score 1 below 0.9.
\<close>

theorem rescoring_mask_spec_counterexample:
  "rescoring_mask [1] [[[True, False]]] [[[3 / 5, 1 / 5]]]
     \<noteq> rescoring_mask_spec [1] [[[True, False]]] [[[3 / 5, 1 / 5]]]
   \<and> sum2 (mul2 [[9 / 10, 1 / 10]] (to_float [[True, False]]))
       < sum2 (mul2 [[9 / 10, 1 / 10]] (to_float [[True, True]]))
   \<and> hd (rescoring_mask [1] [[[True, True]]] [[[9 / 10, 1 / 10]]])
       < hd (rescoring_mask [1] [[[True, False]]] [[[9 / 10, 1 / 10]]])
   \<and> hd (rescoring_mask [1] [[[True, False]]] [[[3 / 5, 0]]]) < 1 - 1 / 10"
  by (simp add: rescoring_mask_def rescoring_mask_spec_def to_float_def sum2_def mul2_def)

lemma sum2_to_float_nonneg: "0 \<le> sum2 (to_float p)"
  unfolding sum2_def to_float_def
  by (intro sum_list_nonneg) (auto intro!: sum_list_nonneg)

lemma rescoring_mask_single:
  "rescoring_mask [s] [p] [m]
     = [s * (sum2 (mul2 m (to_float p)) / (sum2 (to_float p) + 1 / 1000000))]"
  by (simp add: rescoring_mask_def)

lemma rescoring_mask_nth:
  assumes "length scores' = length mask_pred" "length masks' = length mask_pred"
    and "i < length mask_pred"
  shows "rescoring_mask scores' mask_pred masks' ! i =
     scores' ! i * (sum2 (mul2 (masks' ! i) (to_float (mask_pred ! i)))
                     / (sum2 (to_float (mask_pred ! i)) + 1 / 1000000))"
  using assms by (simp add: rescoring_mask_def)

lemma rescoring_mask_length:
  assumes "length scores' = length mask_pred" "length masks' = length mask_pred"
  shows "length (rescoring_mask scores' mask_pred masks') = length mask_pred"
  using assms by (simp add: rescoring_mask_def)

text \<open>
  Claim C4, amended.  The rescored score of detection \<open>i\<close> is
  \<open>score * (sum(soft * boolean) / (sum(boolean) + 1e-6))\<close>, summed over the two spatial
  axes.  For a fixed Boolean mask and a non-negative score, a greater overlap sum does
  not give a smaller rescored score.  When the soft mask is 1 on every pixel of the
  Boolean mask, the rescored score is \<open>score * n / (n + 1e-6)\<close> for the pixel count \<open>n\<close>,
  which is within \<open>|score| * 1e-6\<close> of the score when the Boolean mask is not empty.
\<close>

theorem rescoring_mask_maskness:
  assumes "length scores' = length mask_pred" "length masks' = length mask_pred"
    and "i < length mask_pred"
  shows "rescoring_mask scores' mask_pred masks' ! i =
           scores' ! i * (sum2 (mul2 (masks' ! i) (to_float (mask_pred ! i)))
                           / (sum2 (to_float (mask_pred ! i)) + 1 / 1000000))
       \<and> (0 \<le> s \<and> sum2 (mul2 m (to_float p)) \<le> sum2 (mul2 m' (to_float p)) \<longrightarrow>
            hd (rescoring_mask [s] [p] [m]) \<le> hd (rescoring_mask [s] [p] [m']))
       \<and> (mul2 m (to_float p) = to_float p \<longrightarrow>
            hd (rescoring_mask [s] [p] [m])
              = s * (sum2 (to_float p) / (sum2 (to_float p) + 1 / 1000000))
            \<and> (1 \<le> sum2 (to_float p) \<longrightarrow>
                 \<bar>hd (rescoring_mask [s] [p] [m]) - s\<bar> \<le> \<bar>s\<bar> / 1000000))"
proof (intro conjI impI)
  show "rescoring_mask scores' mask_pred masks' ! i =
           scores' ! i * (sum2 (mul2 (masks' ! i) (to_float (mask_pred ! i)))
                           / (sum2 (to_float (mask_pred ! i)) + 1 / 1000000))"
    by (rule rescoring_mask_nth [OF assms])
next
  assume a: "0 \<le> s \<and> sum2 (mul2 m (to_float p)) \<le> sum2 (mul2 m' (to_float p))"
  have den: "0 < sum2 (to_float p) + 1 / 1000000"
    using sum2_to_float_nonneg [of p] by simp
  have "sum2 (mul2 m (to_float p)) / (sum2 (to_float p) + 1 / 1000000)
          \<le> sum2 (mul2 m' (to_float p)) / (sum2 (to_float p) + 1 / 1000000)"
    using a den by (simp add: divide_right_mono)
  then have "s * (sum2 (mul2 m (to_float p)) / (sum2 (to_float p) + 1 / 1000000))
          \<le> s * (sum2 (mul2 m' (to_float p)) / (sum2 (to_float p) + 1 / 1000000))"
    using a by (intro mult_left_mono) simp_all
  then show "hd (rescoring_mask [s] [p] [m]) \<le> hd (rescoring_mask [s] [p] [m'])"
    by (simp only: rescoring_mask_single list.sel)
next
  assume "mul2 m (to_float p) = to_float p"
  then show "hd (rescoring_mask [s] [p] [m])
               = s * (sum2 (to_float p) / (sum2 (to_float p) + 1 / 1000000))"
    by (simp add: rescoring_mask_single)
next
  assume eq: "mul2 m (to_float p) = to_float p" and n: "1 \<le> sum2 (to_float p)"
  define n where "n = sum2 (to_float p)"
  have n1: "1 \<le> n" using n by (simp add: n_def)
  have "hd (rescoring_mask [s] [p] [m]) - s = s * (n / (n + 1 / 1000000) - 1)"
    by (simp add: rescoring_mask_single eq n_def algebra_simps)
  also have "n / (n + 1 / 1000000) - 1 = - (1 / 1000000) / (n + 1 / 1000000)"
    using n1 by (simp add: field_simps)
  finally have "\<bar>hd (rescoring_mask [s] [p] [m]) - s\<bar> = \<bar>s\<bar> * ((1 / 1000000) / (n + 1 / 1000000))"
    using n1 by (simp add: abs_mult)
  also have "\<dots> \<le> \<bar>s\<bar> * (1 / 1000000)"
    using n1 by (intro mult_left_mono) (simp_all add: field_simps)
  finally show "\<bar>hd (rescoring_mask [s] [p] [m]) - s\<bar> \<le> \<bar>s\<bar> / 1000000"
    by simp
qed

theorem rescoring_mask_maskness_witness:
  "rescoring_mask [1] [[[True, False]]] [[[3 / 5, 1 / 5]]] ! 0 = 600000 / 1000001
   \<and> hd (rescoring_mask [1] [[[True, False]]] [[[3 / 5, 1 / 5]]])
        \<le> hd (rescoring_mask [1] [[[True, False]]] [[[4 / 5, 1 / 5]]])
   \<and> \<bar>hd (rescoring_mask [2] [[[True, False]]] [[[1, 1 / 5]]]) - 2\<bar> \<le> \<bar>2\<bar> / 1000000"
  using rescoring_mask_maskness [of "[1]" "[[[True, False]]]" "[[[3 / 5, 1 / 5]]]" 0
           1 "[[3 / 5, 1 / 5]]" "[[True, False]]" "[[4 / 5, 1 / 5]]"]
        rescoring_mask_maskness [of "[1]" "[[[True, False]]]" "[[[3 / 5, 1 / 5]]]" 0
           2 "[[1, 1 / 5]]" "[[True, False]]" "[[1, 1 / 5]]"]
  by (simp add: to_float_def sum2_def mul2_def)

section \<open>Verification: inference\<close>

lemma filter_zip_map:
  "map fst (filter snd (zip (map f xs) (map P xs))) = map f (filter P xs)"
  by (induction xs) auto

lemma boolean_index_map:
  "boolean_index (map f xs) (map P xs) = Inr (map f (filter P xs))"
  by (simp add: boolean_index_def filter_zip_map)

lemma boolean_index_Inr:
  "boolean_index ys keep = Inr zs \<Longrightarrow> length ys = length keep"
  by (simp add: boolean_index_def split: if_splits)

lemma boolean_index_length:
  assumes "length ys = length xs"
  shows "\<exists>zs. boolean_index ys (map P xs) = Inr zs \<and> length zs = length (filter P xs)"
proof -
  have "length (filter snd (zip ys (map P xs))) = length (filter P xs)"
    using assms by (induction ys xs rule: list_induct2) auto
  then show ?thesis
    using assms by (simp add: boolean_index_def)
qed

lemma max_last_dim_Inr:
  "max_last_dim t = Inr (s, l) \<longleftrightarrow> (\<forall>row\<in>set t. row \<noteq> []) \<and> s = map max_value t \<and> l = map argmax t"
  by (auto simp: max_last_dim_def)

text \<open>The part of the loop body before the branch on the number of kept slots.\<close>

lemma inference_image_kept:
  assumes "inference_image cfg max_shape sc mk bi sh = Inr r"
  shows "(\<forall>row\<in>set sc. row \<noteq> []) \<and> length mk = length sc"
  using assms
  by (auto simp: inference_image_def Let_def bind_err_def max_last_dim_def
      dest: boolean_index_Inr split: sum.splits if_splits prod.splits)

lemma inference_image_unfold:
  assumes ne: "\<forall>row\<in>set sc. row \<noteq> []" and len: "length mk = length sc"
  shows "inference_image cfg max_shape sc mk bi (h, w) =
     (let keep = (\<lambda>row. cls_threshold cfg < max_value row);
          scores1 = map max_value (filter keep sc);
          labels1 = map argmax (filter keep sc);
          masks1 = map fst (filter snd (zip mk (map keep sc)));
          result = Instances (height bi, width bi)
      in if filter keep sc = []
         then Inr (result\<lparr>scores := Some [], pred_classes := Some []\<rparr>)
         else
           bind_err (interpolate masks1 max_shape) (\<lambda>up.
           bind_err (interpolate (crop up h w) (height bi, width bi)) (\<lambda>m2.
           Inr (result\<lparr>pred_masks := Some (map (map (map (\<lambda>v. mask_threshold cfg < v))) m2),
                        scores := Some (rescoring_mask scores1
                           (map (map (map (\<lambda>v. mask_threshold cfg < v))) masks1) masks1),
                        pred_classes := Some labels1\<rparr>))))"
proof -
  have m: "max_last_dim sc = Inr (map max_value sc, map argmax sc)"
    using ne by (simp add: max_last_dim_Inr)
  have k: "map (\<lambda>v. cls_threshold cfg < v) (map max_value sc)
             = map (\<lambda>row. cls_threshold cfg < max_value row) sc"
    by simp
  have b1: "boolean_index (map max_value sc) (map (\<lambda>row. cls_threshold cfg < max_value row) sc)
              = Inr (map max_value (filter (\<lambda>row. cls_threshold cfg < max_value row) sc))"
    by (rule boolean_index_map)
  have b2: "boolean_index (map argmax sc) (map (\<lambda>row. cls_threshold cfg < max_value row) sc)
              = Inr (map argmax (filter (\<lambda>row. cls_threshold cfg < max_value row) sc))"
    by (rule boolean_index_map)
  have b3: "boolean_index mk (map (\<lambda>row. cls_threshold cfg < max_value row) sc)
              = Inr (map fst (filter snd (zip mk (map (\<lambda>row. cls_threshold cfg < max_value row) sc))))"
    using len by (simp add: boolean_index_def)
  show ?thesis
    unfolding inference_image_def Let_def
    by (simp only: m bind_err_def sum.case prod.case k b1 b2 b3 length_0_conv map_is_Nil_conv
        list.map) simp
qed

lemma filter_keep_length:
  "length ys = length xs \<Longrightarrow>
     length (map fst (filter snd (zip ys (map P xs)))) = length (filter P xs)"
  by (induction ys xs rule: list_induct2) auto

lemma filter_keep_set:
  "set (map fst (filter snd (zip ys keep))) \<subseteq> set ys"
  by (auto dest: set_zip_leftD)

lemma interpolate_Inr:
  assumes "interpolate ms (oh, ow) = Inr out"
  shows "length out = length ms \<and> (\<forall>m\<in>set out. length m = oh \<and> (\<forall>row\<in>set m. length row = ow))"
  using assms by (auto simp: interpolate_def Let_def split: if_splits)

lemma inference_loop_Inr:
  "inference_loop cfg max_shape items acc = Inr results \<Longrightarrow>
     length results = length acc + length items
     \<and> (\<forall>j<length items. \<exists>sc mk bi sh. items ! j = (sc, mk, bi, sh)
           \<and> inference_image cfg max_shape sc mk bi sh = Inr (results ! (length acc + j)))"
proof (induction items arbitrary: acc)
  case Nil
  then show ?case by simp
next
  case (Cons item items)
  obtain sc mk bi sh where item: "item = (sc, mk, bi, sh)"
    by (cases item) auto
  from Cons.prems obtain r where r: "inference_image cfg max_shape sc mk bi sh = Inr r"
      and rest: "inference_loop cfg max_shape items (acc @ [r]) = Inr results"
    by (auto simp: item bind_err_def split: sum.splits)
  from Cons.IH [OF rest] have len: "length results = length acc + 1 + length items"
      and ih: "\<forall>j<length items. \<exists>sc mk bi sh. items ! j = (sc, mk, bi, sh)
           \<and> inference_image cfg max_shape sc mk bi sh = Inr (results ! (length acc + 1 + j))"
    by simp_all
  have pre: "\<exists>ys. results = (acc @ [r]) @ ys"
    using rest
  proof (induction items arbitrary: acc r results)
    case Nil
    then show ?case by simp
  next
    case (Cons a items)
    obtain sc' mk' bi' sh' where a: "a = (sc', mk', bi', sh')" by (cases a) auto
    from Cons.prems obtain r' where
        "inference_loop cfg max_shape items ((acc @ [r]) @ [r']) = Inr results"
      by (auto simp: a bind_err_def split: sum.splits)
    from Cons.IH [OF this] show ?case by auto
  qed
  then have r0: "results ! length acc = r"
    by (auto simp: nth_append)
  show ?case
  proof (intro conjI allI impI)
    show "length results = length acc + length (item # items)"
      using len by simp
  next
    fix j assume j: "j < length (item # items)"
    show "\<exists>sc mk bi sh. (item # items) ! j = (sc, mk, bi, sh)
            \<and> inference_image cfg max_shape sc mk bi sh = Inr (results ! (length acc + j))"
    proof (cases j)
      case 0
      then show ?thesis using item r r0 by simp
    next
      case (Suc j')
      then show ?thesis using ih j by simp
    qed
  qed
qed

lemma inference_Inr:
  assumes "inference cfg pred_logits opm pred_obj batched_inputs max_shape image_sizes = Inr results"
    and "i < length results"
  shows "i < length batched_inputs \<and> i < length (combined_scores pred_logits pred_obj)
     \<and> i < length opm \<and> i < length image_sizes
     \<and> inference_image cfg max_shape (combined_scores pred_logits pred_obj ! i)
          (map (map (map sigmoid)) (opm ! i)) (batched_inputs ! i) (image_sizes ! i)
        = Inr (results ! i)"
proof -
  let ?items = "zip (combined_scores pred_logits pred_obj)
                  (zip (map (map (map (map sigmoid))) opm) (zip batched_inputs image_sizes))"
  from assms(1) have loop: "inference_loop cfg max_shape ?items [] = Inr results"
    by (simp add: inference_def Let_def)
  from inference_loop_Inr [OF loop] have len: "length results = length ?items"
      and each: "\<forall>j<length ?items. \<exists>sc mk bi sh. ?items ! j = (sc, mk, bi, sh)
           \<and> inference_image cfg max_shape sc mk bi sh = Inr (results ! j)"
    by simp_all
  from assms(2) len have i: "i < length ?items" by simp
  then have b: "i < length batched_inputs" "i < length (combined_scores pred_logits pred_obj)"
      "i < length opm" "i < length image_sizes"
    by simp_all
  have "?items ! i = (combined_scores pred_logits pred_obj ! i,
          map (map (map sigmoid)) (opm ! i), batched_inputs ! i, image_sizes ! i)"
    using b by simp
  with each i b show ?thesis by auto
qed

lemma sigmoid_range: "0 < sigmoid v \<and> sigmoid v < 1"
proof -
  have "1 < 1 + exp (- v)" by simp
  then show ?thesis unfolding sigmoid_def by (simp add: add_pos_pos)
qed

lemma geometric_mean_range: "0 \<le> sqrt (sigmoid l * sigmoid obj) \<and> sqrt (sigmoid l * sigmoid obj) \<le> 1"
proof -
  have a: "0 < sigmoid l" "sigmoid l < 1" "0 < sigmoid obj" "sigmoid obj < 1"
    using sigmoid_range by simp_all
  then have "sigmoid l * sigmoid obj \<le> 1 * 1"
    by (intro mult_mono) simp_all
  with a show ?thesis by simp
qed

lemma combined_scores_range:
  assumes "slots \<in> set (combined_scores pred_logits pred_obj)" "row \<in> set slots" "v \<in> set row"
  shows "0 \<le> v \<and> v \<le> 1"
proof -
  from assms(1) obtain ls os where "slots = map2 (\<lambda>cls obj. map (\<lambda>l. sqrt (sigmoid l * sigmoid obj)) cls) ls os"
    by (auto simp: combined_scores_def)
  with assms(2) obtain cls obj where "row = map (\<lambda>l. sqrt (sigmoid l * sigmoid obj)) cls"
    by auto
  with assms(3) obtain l where "v = sqrt (sigmoid l * sigmoid obj)"
    by auto
  then show ?thesis
    using geometric_mean_range by simp
qed

lemma foldl_max_in: "foldl max a xs \<in> set (a # xs)"
proof (induction xs arbitrary: a)
  case Nil
  then show ?case by simp
next
  case (Cons x xs)
  have ih: "foldl max (max a x) xs \<in> set (max a x # xs)" by (rule Cons.IH)
  have "max a x = a \<or> max a x = x" by (simp add: max_def)
  with ih show ?case by auto
qed

lemma max_value_in: "row \<noteq> [] \<Longrightarrow> max_value row \<in> set row"
  using foldl_max_in [of "hd row" "tl row"] by (cases row) (simp_all add: max_value_def)

lemma overlap_row:
  fixes row :: "real list"
  assumes "\<forall>v\<in>set row. 0 \<le> v \<and> v \<le> 1"
  shows "0 \<le> sum_list (map2 (*) row (map (\<lambda>b. if b then 1 else 0) (map P row)))
       \<and> sum_list (map2 (*) row (map (\<lambda>b. if b then 1 else 0) (map P row)))
           \<le> sum_list (map (\<lambda>b. if b then 1 else 0) (map P row))"
  using assms by (induction row) auto

lemma overlap_mask:
  assumes "\<forall>row\<in>set m. \<forall>v\<in>set row. 0 \<le> v \<and> v \<le> 1"
  shows "0 \<le> sum2 (mul2 m (to_float (map (map P) m)))
       \<and> sum2 (mul2 m (to_float (map (map P) m))) \<le> sum2 (to_float (map (map P) m))"
  using assms
proof (induction m)
  case Nil
  then show ?case by (simp add: sum2_def mul2_def to_float_def)
next
  case (Cons row m)
  from Cons.prems have "\<forall>v\<in>set row. 0 \<le> v \<and> v \<le> 1" by simp
  from overlap_row [OF this, of P] Cons.IH Cons.prems show ?case
    by (simp add: sum2_def mul2_def to_float_def)
qed

lemma rescoring_range:
  assumes len: "length ss = length ms"
    and ss: "\<forall>s\<in>set ss. 0 \<le> s \<and> s \<le> 1"
    and ms: "\<forall>m\<in>set ms. \<forall>row\<in>set m. \<forall>v\<in>set row. 0 \<le> v \<and> v \<le> 1"
  shows "length (rescoring_mask ss (map (map (map P)) ms) ms) = length ms
       \<and> (\<forall>s\<in>set (rescoring_mask ss (map (map (map P)) ms) ms). 0 \<le> s \<and> s \<le> 1)"
proof -
  let ?bs = "map (map (map P)) ms"
  have l1: "length ss = length ?bs" and l2: "length ms = length ?bs"
    using len by simp_all
  have rl: "length (rescoring_mask ss ?bs ms) = length ms"
    using rescoring_mask_length [OF l1 l2] by simp
  have "0 \<le> s \<and> s \<le> 1" if "s \<in> set (rescoring_mask ss ?bs ms)" for s
  proof -
  from that obtain i where i: "i < length ms" and s: "s = rescoring_mask ss ?bs ms ! i"
    using rl by (auto simp: in_set_conv_nth)
  have ib: "i < length ?bs" using i by simp
  let ?num = "sum2 (mul2 (ms ! i) (to_float (map (map P) (ms ! i))))"
  let ?den = "sum2 (to_float (map (map P) (ms ! i)))"
  have eq: "s = ss ! i * (?num / (?den + 1 / 1000000))"
    using rescoring_mask_nth [OF l1 l2 ib] i by (simp add: s)
  have "\<forall>row\<in>set (ms ! i). \<forall>v\<in>set row. 0 \<le> v \<and> v \<le> 1"
    using ms i nth_mem [of i ms] by blast
  from overlap_mask [OF this, of P] have num: "0 \<le> ?num" "?num \<le> ?den"
    by simp_all
  then have den: "0 < ?den + 1 / 1000000" by simp
  have q0: "0 \<le> ?num / (?den + 1 / 1000000)"
    using num den by simp
  have q1: "?num / (?den + 1 / 1000000) \<le> 1"
    using num den by (simp add: field_simps)
  have si: "0 \<le> ss ! i" "ss ! i \<le> 1"
    using ss i len by simp_all
  have "ss ! i * (?num / (?den + 1 / 1000000)) \<le> 1 * 1"
    using si q0 q1 by (intro mult_mono) simp_all
  then have le: "ss ! i * (?num / (?den + 1 / 1000000)) \<le> 1"
    by (simp only: mult_1)
  have ge: "0 \<le> ss ! i * (?num / (?den + 1 / 1000000))"
    using si q0 by (intro mult_nonneg_nonneg)
  from le ge show "0 \<le> s \<and> s \<le> 1"
    by (simp only: eq simp_thms)
  qed
  with rl show ?thesis by blast
qed

lemma inference_image_invariant:
  assumes ok: "inference_image cfg max_shape sc mk bi sh = Inr r"
    and sc: "\<forall>row\<in>set sc. \<forall>v\<in>set row. 0 \<le> v \<and> v \<le> 1"
    and mk: "\<forall>m\<in>set mk. \<forall>row\<in>set m. \<forall>v\<in>set row. 0 \<le> v \<and> v \<le> 1"
  shows "image_size r = (height bi, width bi)
       \<and> (\<exists>ss. scores r = Some ss \<and> (\<forall>s\<in>set ss. 0 \<le> s \<and> s \<le> 1)
             \<and> (ss \<noteq> [] \<longrightarrow> (\<exists>ms. pred_masks r = Some ms))
             \<and> (\<forall>ms. pred_masks r = Some ms \<longrightarrow>
                   length ms = length ss
                   \<and> (\<forall>m\<in>set ms. length m = height bi
                         \<and> (\<forall>row\<in>set m. length row = width bi))))"
proof -
  obtain h w where sh: "sh = (h, w)" by (cases sh) auto
  from inference_image_kept [OF ok] have ne: "\<forall>row\<in>set sc. row \<noteq> []"
      and len: "length mk = length sc"
    by simp_all
  let ?keep = "\<lambda>row. cls_threshold cfg < max_value row"
  let ?m1 = "map fst (filter snd (zip mk (map ?keep sc)))"
  let ?s1 = "map max_value (filter ?keep sc)"
  let ?P = "\<lambda>v. mask_threshold cfg < v"
  note u = inference_image_unfold [OF ne len, of cfg max_shape bi h w]
  show ?thesis
  proof (cases "filter ?keep sc = []")
    case True
    with ok u sh have "r = (Instances (height bi, width bi))\<lparr>scores := Some [], pred_classes := Some []\<rparr>"
      by (simp add: Let_def)
    then show ?thesis by (simp add: Instances_def)
  next
    case False
    with ok u sh obtain up m2 where up: "interpolate ?m1 max_shape = Inr up"
        and m2: "interpolate (crop up h w) (height bi, width bi) = Inr m2"
        and r: "r = (Instances (height bi, width bi))
                    \<lparr>pred_masks := Some (map (map (map ?P)) m2),
                     scores := Some (rescoring_mask ?s1 (map (map (map ?P)) ?m1) ?m1),
                     pred_classes := Some (map argmax (filter ?keep sc))\<rparr>"
      by (auto simp: Let_def bind_err_def split: sum.splits)
    have l1: "length ?m1 = length (filter ?keep sc)"
      using len by (rule filter_keep_length)
    have s1: "\<forall>s\<in>set ?s1. 0 \<le> s \<and> s \<le> 1"
    proof
      fix s assume "s \<in> set ?s1"
      then obtain row where row: "row \<in> set sc" "s = max_value row" by auto
      then have "max_value row \<in> set row" using ne by (simp add: max_value_in)
      with sc row show "0 \<le> s \<and> s \<le> 1" by blast
    qed
    have m1: "\<forall>m\<in>set ?m1. \<forall>row\<in>set m. \<forall>v\<in>set row. 0 \<le> v \<and> v \<le> 1"
      using mk filter_keep_set [of mk "map ?keep sc"] by blast
    have rr: "length (rescoring_mask ?s1 (map (map (map ?P)) ?m1) ?m1) = length ?m1
       \<and> (\<forall>s\<in>set (rescoring_mask ?s1 (map (map (map ?P)) ?m1) ?m1). 0 \<le> s \<and> s \<le> 1)"
      using l1 by (intro rescoring_range [OF _ s1 m1]) simp
    obtain mh mw where ms: "max_shape = (mh, mw)" by (cases max_shape) auto
    from interpolate_Inr [OF up [unfolded ms]] have lu: "length up = length ?m1" by simp
    from interpolate_Inr [OF m2] have lm: "length m2 = length (crop up h w)"
        and shp: "\<forall>m\<in>set m2. length m = height bi \<and> (\<forall>row\<in>set m. length row = width bi)"
      by simp_all
    have "length m2 = length ?m1" using lm lu by (simp add: crop_def)
    with rr shp show ?thesis
      by (simp add: r Instances_def)
  qed
qed

lemma sigmoid_zero: "sigmoid 0 = 1 / 2"
  by (simp add: sigmoid_def)

lemma sqrt_quarter: "sqrt (1 / 4) = 1 / 2"
  by (simp add: real_sqrt_divide)

lemma max_value_single: "max_value [a] = a" "argmax [a] = 0"
  by (simp_all add: max_value_def argmax_def)

lemma ex_combined: "combined_scores [[[0]], [[0, 0]]] [[0], [0]] = [[[1 / 2]], [[1 / 2, 1 / 2]]]"
  by (simp add: combined_scores_def sigmoid_zero sqrt_quarter)

lemma ex_inference_empty:
  "inference ex_cfg [[[0]], [[0, 0]]] [[[[0]]], [[[0]]]] [[0], [0]] [ex_input_1, ex_input_2] (4, 4)
       [(4, 4), (3, 4)]
     = Inr [(Instances (1, 1))\<lparr>scores := Some [], pred_classes := Some []\<rparr>,
            (Instances (2, 3))\<lparr>scores := Some [], pred_classes := Some []\<rparr>]"
  by (simp add: inference_def ex_combined inference_image_def max_last_dim_def boolean_index_def
      max_value_def argmax_def bind_err_def ex_cfg_def ex_input_1_def ex_input_2_def Let_def)

lemma ex_inference_detection:
  "inference ex_cfg_low [[[0]]] [[[[0]]]] [[0]] [ex_input_2] (1, 1) [(1, 1)] = Inr [ex_detection]"
  by (simp add: inference_def combined_scores_def sigmoid_zero sqrt_quarter inference_image_def
      max_last_dim_def boolean_index_def max_value_def argmax_def bind_err_def ex_cfg_low_def
      ex_input_2_def Let_def rescoring_mask_def to_float_def sum2_def mul2_def interpolate_def
      crop_def bilinear_sample_def bilinear_axis_def ex_detection_def upt_rec)

lemma ex_inference_image_strict:
  "inference_image ex_cfg (1, 1) [[1 / 2, 1 / 4], [1 / 4, 3 / 4]] [[[1 / 2]], [[3 / 4]]]
       ex_input_1 (1, 1) = Inr ex_kept"
  by (simp add: inference_image_def
      max_last_dim_def boolean_index_def max_value_def argmax_def bind_err_def ex_cfg_def
      ex_input_1_def Let_def rescoring_mask_def to_float_def sum2_def mul2_def interpolate_def
      crop_def bilinear_sample_def bilinear_axis_def ex_kept_def upt_rec)

lemma inference_image_empty:
  assumes "\<forall>row\<in>set sc. row \<noteq> [] \<and> max_value row \<le> cls_threshold cfg"
    and "length mk = length sc"
  shows "inference_image cfg max_shape sc mk bi sh
           = Inr ((Instances (height bi, width bi))\<lparr>scores := Some [], pred_classes := Some []\<rparr>)"
proof -
  obtain h w where sh: "sh = (h, w)" by (cases sh) auto
  have ne: "\<forall>row\<in>set sc. row \<noteq> []" using assms(1) by simp
  have "filter (\<lambda>row. cls_threshold cfg < max_value row) sc = []"
    using assms(1) by (auto simp: filter_empty_conv)
  then show ?thesis
    unfolding sh inference_image_unfold [OF ne assms(2)] by (simp add: Let_def)
qed

text \<open>
  Claim C1.  For an image none of whose slots has a best combined score above the
  classification threshold (every slot has at least one class, and the masks are aligned
  with the slots), the loop body returns the empty result: scores and class labels are
  set and empty and no mask field is set; nothing is rescored or resampled, whatever the
  masks and the sizes are.  Whenever \<open>inference\<close> returns, the result at the position of
  such an image is this empty result of that image.
\<close>

theorem inference_empty_result:
  "((\<forall>row\<in>set scores_per_image. row \<noteq> [] \<and> max_value row \<le> cls_threshold cfg)
      \<and> length mask_pred_per_image = length scores_per_image \<longrightarrow>
      inference_image cfg max_shape scores_per_image mask_pred_per_image bi img_shape
        = Inr ((Instances (height bi, width bi))\<lparr>scores := Some [], pred_classes := Some []\<rparr>))
   \<and> (inference cfg pred_logits output_pred_masks pred_objectness batched_inputs max_shape
          image_sizes = Inr results
        \<and> i < length results
        \<and> (\<forall>row\<in>set (combined_scores pred_logits pred_objectness ! i).
              max_value row \<le> cls_threshold cfg) \<longrightarrow>
        results ! i = (Instances (height (batched_inputs ! i), width (batched_inputs ! i)))
                        \<lparr>scores := Some [], pred_classes := Some []\<rparr>
        \<and> scores (results ! i) = Some [] \<and> pred_classes (results ! i) = Some []
        \<and> pred_masks (results ! i) = None)"
proof (intro conjI impI)
  assume "(\<forall>row\<in>set scores_per_image. row \<noteq> [] \<and> max_value row \<le> cls_threshold cfg)
      \<and> length mask_pred_per_image = length scores_per_image"
  then show "inference_image cfg max_shape scores_per_image mask_pred_per_image bi img_shape
        = Inr ((Instances (height bi, width bi))\<lparr>scores := Some [], pred_classes := Some []\<rparr>)"
    by (intro inference_image_empty) simp_all
next
  assume a: "inference cfg pred_logits output_pred_masks pred_objectness batched_inputs max_shape
          image_sizes = Inr results
        \<and> i < length results
        \<and> (\<forall>row\<in>set (combined_scores pred_logits pred_objectness ! i).
              max_value row \<le> cls_threshold cfg)"
  let ?sc = "combined_scores pred_logits pred_objectness ! i"
  let ?mk = "map (map (map sigmoid)) (output_pred_masks ! i)"
  from a inference_Inr [of cfg pred_logits output_pred_masks pred_objectness batched_inputs
      max_shape image_sizes results i]
  have ok: "inference_image cfg max_shape ?sc ?mk (batched_inputs ! i) (image_sizes ! i)
              = Inr (results ! i)"
    by simp
  from inference_image_kept [OF ok] a
  have "\<forall>row\<in>set ?sc. row \<noteq> [] \<and> max_value row \<le> cls_threshold cfg" "length ?mk = length ?sc"
    by simp_all
  from inference_image_empty [OF this, of max_shape "batched_inputs ! i" "image_sizes ! i"] ok
  show r: "results ! i = (Instances (height (batched_inputs ! i), width (batched_inputs ! i)))
                        \<lparr>scores := Some [], pred_classes := Some []\<rparr>"
    by simp
  show "scores (results ! i) = Some []" "pred_classes (results ! i) = Some []"
    "pred_masks (results ! i) = None"
    by (simp_all add: r Instances_def)
qed

theorem inference_empty_result_witness:
  "inference_image ex_cfg (4, 4) [[1 / 2]] [[[1 / 2]]] ex_input_1 (4, 4)
     = Inr ((Instances (1, 1))\<lparr>scores := Some [], pred_classes := Some []\<rparr>)
   \<and> inference ex_cfg [[[0]], [[0, 0]]] [[[[0]]], [[[0]]]] [[0], [0]] [ex_input_1, ex_input_2]
        (4, 4) [(4, 4), (3, 4)]
      = Inr [(Instances (1, 1))\<lparr>scores := Some [], pred_classes := Some []\<rparr>,
             (Instances (2, 3))\<lparr>scores := Some [], pred_classes := Some []\<rparr>]
   \<and> pred_masks ((Instances (2, 3))\<lparr>scores := Some [], pred_classes := Some []\<rparr>) = None"
  using inference_empty_result [of "[[1 / 2]]" ex_cfg "[[[1 / 2]]]" "(4, 4)" ex_input_1 "(4, 4)"
          "[[[0]], [[0, 0]]]" "[[[[0]]], [[[0]]]]" "[[0], [0]]" "[ex_input_1, ex_input_2]"
          "[(4, 4), (3, 4)]"
          "[(Instances (1, 1))\<lparr>scores := Some [], pred_classes := Some []\<rparr>,
            (Instances (2, 3))\<lparr>scores := Some [], pred_classes := Some []\<rparr>]" 1]
        ex_inference_empty
  by (simp add: ex_combined max_value_def ex_cfg_def ex_input_1_def ex_input_2_def)

text \<open>
  Claim C10.  The slots kept by the loop body are exactly those whose best score is
  strictly greater than the classification threshold: the class labels of the result are
  the first best classes of these slots, in order, and there is one score for each of
  them.  When the best score of every slot equals the threshold, nothing is kept.
\<close>

theorem cls_threshold_strict:
  assumes "inference_image cfg max_shape scores_per_image mask_pred_per_image bi img_shape = Inr r"
  shows "pred_classes r
           = Some (map argmax (filter (\<lambda>row. cls_threshold cfg < max_value row) scores_per_image))
       \<and> map_option length (scores r)
           = Some (length (filter (\<lambda>row. cls_threshold cfg < max_value row) scores_per_image))
       \<and> ((\<forall>row\<in>set scores_per_image. max_value row = cls_threshold cfg) \<longrightarrow>
            scores r = Some [] \<and> pred_classes r = Some [] \<and> pred_masks r = None)"
proof -
  obtain h w where sh: "img_shape = (h, w)" by (cases img_shape) auto
  from inference_image_kept [OF assms] have ne: "\<forall>row\<in>set scores_per_image. row \<noteq> []"
      and len: "length mask_pred_per_image = length scores_per_image"
    by simp_all
  let ?keep = "\<lambda>row. cls_threshold cfg < max_value row"
  let ?m1 = "map fst (filter snd (zip mask_pred_per_image (map ?keep scores_per_image)))"
  let ?s1 = "map max_value (filter ?keep scores_per_image)"
  let ?P = "\<lambda>v. mask_threshold cfg < v"
  note u = inference_image_unfold [OF ne len, of cfg max_shape bi h w]
  have l1: "length ?m1 = length (filter ?keep scores_per_image)"
    using len by (rule filter_keep_length)
  have rl: "length (rescoring_mask ?s1 (map (map (map ?P)) ?m1) ?m1)
              = length (filter ?keep scores_per_image)"
    using rescoring_mask_length [of ?s1 "map (map (map ?P)) ?m1" ?m1] l1 by simp
  have main: "pred_classes r = Some (map argmax (filter ?keep scores_per_image))
       \<and> map_option length (scores r) = Some (length (filter ?keep scores_per_image))
       \<and> (filter ?keep scores_per_image = [] \<longrightarrow> pred_masks r = None)"
  proof (cases "filter ?keep scores_per_image = []")
    case True
    with assms u sh have "r = (Instances (height bi, width bi))\<lparr>scores := Some [], pred_classes := Some []\<rparr>"
      by (simp add: Let_def)
    with True show ?thesis by (simp add: Instances_def)
  next
    case False
    with assms u sh obtain m2 where
        "r = (Instances (height bi, width bi))
                    \<lparr>pred_masks := Some (map (map (map ?P)) m2),
                     scores := Some (rescoring_mask ?s1 (map (map (map ?P)) ?m1) ?m1),
                     pred_classes := Some (map argmax (filter ?keep scores_per_image))\<rparr>"
      by (auto simp: Let_def bind_err_def split: sum.splits)
    with False rl show ?thesis by simp
  qed
  have "filter ?keep scores_per_image = []"
    if "\<forall>row\<in>set scores_per_image. max_value row = cls_threshold cfg"
    using that by (auto simp: filter_empty_conv)
  with main show ?thesis by auto
qed

theorem cls_threshold_strict_witness:
  "inference_image ex_cfg (1, 1) [[1 / 2, 1 / 4], [1 / 4, 3 / 4]] [[[1 / 2]], [[3 / 4]]]
       ex_input_1 (1, 1) = Inr ex_kept
   \<and> max_value [1 / 2, 1 / 4] = cls_threshold ex_cfg
   \<and> pred_classes ex_kept = Some [1]
   \<and> map_option length (scores ex_kept) = Some 1"
  using cls_threshold_strict [OF ex_inference_image_strict] ex_inference_image_strict
  by (simp add: max_value_def argmax_def ex_cfg_def)

text \<open>
  Claim C6.  Whenever \<open>inference\<close> returns, the result of every image has the original
  size of that image, every score (the greatest \<open>sqrt(sigmoid(class) * sigmoid(objectness))\<close>
  of a slot times its maskness factor) lies in \<open>[0, 1]\<close>, the masks are present whenever
  there is a detection, and there is one Boolean mask for every score, each with \<open>height\<close>
  rows of \<open>width\<close> entries of the original image.
\<close>

theorem detection_invariant:
  assumes "inference cfg pred_logits output_pred_masks pred_objectness batched_inputs max_shape
             image_sizes = Inr results"
    and "i < length results"
  shows "image_size (results ! i) = (height (batched_inputs ! i), width (batched_inputs ! i))
       \<and> (\<exists>ss. scores (results ! i) = Some ss \<and> (\<forall>s\<in>set ss. 0 \<le> s \<and> s \<le> 1)
             \<and> (ss \<noteq> [] \<longrightarrow> (\<exists>ms. pred_masks (results ! i) = Some ms))
             \<and> (\<forall>ms. pred_masks (results ! i) = Some ms \<longrightarrow>
                   length ms = length ss
                   \<and> (\<forall>m\<in>set ms. length m = height (batched_inputs ! i)
                         \<and> (\<forall>row\<in>set m. length row = width (batched_inputs ! i)))))"
proof -
  let ?sc = "combined_scores pred_logits pred_objectness ! i"
  let ?mk = "map (map (map sigmoid)) (output_pred_masks ! i)"
  from inference_Inr [OF assms]
  have i: "i < length (combined_scores pred_logits pred_objectness)"
    and ok: "inference_image cfg max_shape ?sc ?mk (batched_inputs ! i) (image_sizes ! i)
              = Inr (results ! i)"
    by simp_all
  have sc: "\<forall>row\<in>set ?sc. \<forall>v\<in>set row. 0 \<le> v \<and> v \<le> 1"
    using combined_scores_range [of ?sc pred_logits pred_objectness] i nth_mem by blast
  have mk: "\<forall>m\<in>set ?mk. \<forall>row\<in>set m. \<forall>v\<in>set row. 0 \<le> v \<and> v \<le> 1"
    using sigmoid_range by (auto simp: less_imp_le)
  show ?thesis
    by (rule inference_image_invariant [OF ok sc mk])
qed

theorem detection_invariant_witness:
  "inference ex_cfg_low [[[0]]] [[[[0]]]] [[0]] [ex_input_2] (1, 1) [(1, 1)] = Inr [ex_detection]
   \<and> image_size ex_detection = (2, 3)
   \<and> scores ex_detection = Some [250000 / 1000001]
   \<and> pred_masks ex_detection = Some [[[True, True, True], [True, True, True]]]"
  using detection_invariant [OF ex_inference_detection, of 0] ex_inference_detection
  by (simp add: ex_detection_def Instances_def)

section \<open>Verification: images without instances\<close>

lemma add_bitmasks_loop_boxes:
  "add_bitmasks_loop f ds ms i insts = Inr out \<Longrightarrow> map gt_boxes out = map gt_boxes insts"
proof (induction insts arbitrary: i out)
  case Nil
  then show ?case by simp
next
  case (Cons inst rest)
  from Cons.prems obtain inst' rest' where out: "out = inst' # rest'"
      and rest: "add_bitmasks_loop f ds ms (Suc i) rest = Inr rest'"
      and inst: "gt_boxes inst' = gt_boxes inst"
    by (auto simp: bind_err_def split: sum.splits if_splits)
  from Cons.IH [OF rest] show ?case
    by (simp add: out inst)
qed

lemma add_bitmasks_from_boxes_boxes:
  assumes "add_bitmasks_from_boxes f insts images ms = Inr out"
  shows "map gt_boxes out = map gt_boxes insts"
  using assms
  by (auto simp: add_bitmasks_from_boxes_def bind_err_def Let_def
      dest: add_bitmasks_loop_boxes split: sum.splits if_splits)

lemma prepare_targets_no_boxes:
  assumes "inst \<in> set insts" "gt_boxes inst = Some []"
  shows "\<exists>e. prepare_targets insts = Inl e"
proof (cases "prepare_targets insts")
  case (Inl e)
  then show ?thesis by simp
next
  case (Inr new)
  from assms(1) obtain j where j: "j < length insts" "insts ! j = inst"
    by (auto simp: in_set_conv_nth)
  from list_all2_nthD [OF prepare_targets_Inr [OF Inr] j(1)]
  have "prepare_target inst = Inr (new ! j)" by (simp add: j)
  from prepare_target_Inr [OF this] assms(2) show ?thesis by auto
qed

text \<open>
  Claim C2 asks that an image with zero ground-truth instances yields an empty target.
  The code does not do this.  Whenever some image of the batch has an empty box list, the
  training branch raises: \<open>add_bitmasks_from_boxes\<close> skips the image (line 317), so
  \<open>prepare_targets\<close> finds no \<open>image_color_similarity\<close> field (line 165); and even with
  the field set, \<open>torch.stack\<close> of the empty list of pseudo-masks raises (line 189).
\<close>

theorem zero_instances_crash:
  "(inst \<in> set gt_instances \<and> gt_boxes inst = Some [] \<longrightarrow>
      (\<exists>e. training_targets rgb2lab gt_instances images image_masks = Inl e))
   \<and> (gt_boxes t = Some [] \<and> gt_classes t = Some cls \<and> image_color_similarity t = Some cs \<longrightarrow>
        prepare_targets [t] = Inl (RuntimeError ''stack expects a non-empty TensorList''))"
proof (intro conjI impI)
  assume a: "inst \<in> set gt_instances \<and> gt_boxes inst = Some []"
  show "\<exists>e. training_targets rgb2lab gt_instances images image_masks = Inl e"
  proof (cases "add_bitmasks_from_boxes rgb2lab gt_instances images image_masks")
    case (Inl e)
    then show ?thesis by (simp add: training_targets_def bind_err_def)
  next
    case (Inr out)
    from add_bitmasks_from_boxes_boxes [OF Inr] a
    have "Some [] \<in> set (map gt_boxes out)"
      by (metis (no_types, lifting) image_eqI list.set_map)
    then obtain inst' where "inst' \<in> set out" "gt_boxes inst' = Some []"
      by auto
    from prepare_targets_no_boxes [OF this] show ?thesis
      by (simp add: training_targets_def bind_err_def Inr)
  qed
next
  assume "gt_boxes t = Some [] \<and> gt_classes t = Some cls \<and> image_color_similarity t = Some cs"
  then show "prepare_targets [t] = Inl (RuntimeError ''stack expects a non-empty TensorList'')"
    by (simp add: prepare_targets_def prepare_target_def bind_err_def get_field_def
        torch_stack_def split: prod.splits)
qed

lemma ex_add_bitmasks:
  "add_bitmasks_from_boxes (\<lambda>p. p) [ex_empty] ex_padded ex_padded_masks = Inr [ex_empty]"
proof -
  obtain ds where ds: "avg_pool2d ex_padded 4 = Inr ds" "shape ds = [1, 3, 1, 1]"
    by (simp add: avg_pool2d_def ex_padded_def dim_def)
  obtain sm where sm: "strided ex_padded_masks 2 4 = Inr sm" "shape sm = [1, 1, 1]"
    by (simp add: strided_def ex_padded_masks_def dim_def range_len_def)
  obtain img where img: "select ds 0 0 = Inr img" "shape img = [3, 1, 1]"
    by (simp add: select_def dim_def ds)
  obtain lab where lab: "images_lab_of (\<lambda>p. p) img = Inr lab" "shape lab = [1, 3, 1, 1]"
    by (simp add: images_lab_of_def dim_def img)
  obtain m where m: "select sm 0 0 = Inr m" "shape m = [1, 1]"
    by (simp add: select_def dim_def sm)
  obtain cs where cs: "get_images_color_similarity lab m pairwise_size pairwise_dilation = Inr cs"
    using builder_result_shape [OF lab(2) m(2), of pairwise_size pairwise_dilation]
    by (auto simp: pairwise_size_def pairwise_dilation_def)
  have n: "len_instances ex_empty = Inr 0"
    by (simp add: len_instances_def ex_empty_def Instances_def)
  have loop: "add_bitmasks_loop (\<lambda>p. p) ds sm 0 [ex_empty] = Inr [ex_empty]"
    by (simp add: bind_err_def img lab m cs n)
  have s2: "size_at ex_padded 2 = Inr 4" and s3: "size_at ex_padded 3 = Inr 4"
    by (simp_all add: size_at_def ex_padded_def dim_def)
  show ?thesis
    by (simp add: add_bitmasks_from_boxes_def s2 s3 bind_err_def ds sm loop
        del: add_bitmasks_loop.simps)
qed

lemma ex_training_targets:
  "training_targets (\<lambda>p. p) [ex_empty] ex_padded ex_padded_masks
     = Inl (AttributeError ''image_color_similarity'')"
  unfolding training_targets_def ex_add_bitmasks
  by (simp add: bind_err_def prepare_targets_def prepare_target_def get_field_def ex_empty_def
      Instances_def)

theorem zero_instances_crash_witness:
  "gt_boxes ex_empty = Some []
   \<and> training_targets (\<lambda>p. p) [ex_empty] ex_padded ex_padded_masks
       = Inl (AttributeError ''image_color_similarity'')
   \<and> prepare_targets [ex_empty\<lparr>image_color_similarity := Some ex_color_sim\<rparr>]
       = Inl (RuntimeError ''stack expects a non-empty TensorList'')"
  using zero_instances_crash [where inst = ex_empty and gt_instances = "[ex_empty]"
          and t = "ex_empty\<lparr>image_color_similarity := Some ex_color_sim\<rparr>" and cls = "[]"
          and cs = ex_color_sim and ?rgb2lab = "\<lambda>p. p" and images = ex_padded
          and image_masks = ex_padded_masks]
        ex_training_targets
  by (simp add: ex_empty_def Instances_def)

end
